theory Spec2Isabelle
  imports Main "HOL-Library.Finite_Map"
begin

section \<open>TokenDrop: data model\<close>

text \<open>
  The contract of \<^verbatim>\<open>contracts/TokenDrop.algo.ts\<close> with the types of
  \<^verbatim>\<open>contracts/types.algo.ts\<close>. A \<^verbatim>\<open>uint64\<close> is a natural number; the
  AVM stops the program when an addition or multiplication leaves the 64-bit range, when a
  subtraction goes below zero and when a divisor is zero, so every such place of the source
  is a branch to \<open>ArithmeticPanic\<close>. Byte strings and addresses are \<open>string\<close>s (lists of
  8-bit characters).
\<close>

type_synonym bytes = string
type_synonym address = string
type_synonym TokenDropId = nat

definition GATING_TYPE_NONE :: nat where "GATING_TYPE_NONE = 0"
definition GATING_TYPE_ASSETS_CREATED_BY :: nat where "GATING_TYPE_ASSETS_CREATED_BY = 1"
definition GATING_TYPE_ASSET_ID :: nat where "GATING_TYPE_ASSET_ID = 2"
definition GATING_TYPE_CREATED_BY_NFD_ADDRESSES :: nat where "GATING_TYPE_CREATED_BY_NFD_ADDRESSES = 3"
definition GATING_TYPE_SEGMENT_OF_NFD :: nat where "GATING_TYPE_SEGMENT_OF_NFD = 4"
definition GATING_TYPE_NFD_W_VERIFIED_TWITTER :: nat where "GATING_TYPE_NFD_W_VERIFIED_TWITTER = 5"
definition GATING_TYPE_NFD_W_VERIFIED_BLUESKY :: nat where "GATING_TYPE_NFD_W_VERIFIED_BLUESKY = 6"
definition GATING_TYPE_NFD_HOLDING_AGE :: nat where "GATING_TYPE_NFD_HOLDING_AGE = 7"
definition GATING_TYPE_CONST_MAX :: nat where "GATING_TYPE_CONST_MAX = 7"

record TokenDropConfig =
  Token :: nat
  AmountPerClaim :: nat
  AirdropEndTime :: nat
  entryGatingType :: nat
  entryGatingAddress :: address
  entryGatingAssets :: "nat \<times> nat \<times> nat \<times> nat"
  gatingAssetMinBalance :: nat

record TokenDropInfo =
  DropId :: TokenDropId
  DropCreator :: address
  AmountRemaining :: nat
  MaxClaims :: nat
  NumClaims :: nat
  Config :: TokenDropConfig

text \<open>
  \<^verbatim>\<open>AddressClaimKey\<close> is the pair (TokenDropId, Address); \<^verbatim>\<open>ClaimedInfo\<close>
  holds the one field \<^verbatim>\<open>TxnId\<close>. The encoded sizes \<^verbatim>\<open>len<T>()\<close> follow from the
  field widths (uint64 8 bytes, uint8 1 byte, Address 32 bytes, bytes32 32 bytes).
\<close>

type_synonym AddressClaimKey = "TokenDropId \<times> address"
type_synonym ClaimedInfo = bytes

definition len_TokenDropId :: nat where "len_TokenDropId = 8"
definition len_AssetID :: nat where "len_AssetID = 8"
definition len_TokenDropConfig :: nat where "len_TokenDropConfig = 8 + 8 + 8 + 1 + 32 + 4 * 8 + 8"
definition len_TokenDropInfo :: nat where "len_TokenDropInfo = 8 + 32 + 8 + 8 + 8 + len_TokenDropConfig"
definition len_AddressClaimKey :: nat where "len_AddressClaimKey = 8 + 32"
definition len_ClaimedInfo :: nat where "len_ClaimedInfo = 32"

text \<open>The two transactions that precede an application call in its group.\<close>

record PayTxn =
  pay_sender :: address
  pay_receiver :: address
  pay_amount :: nat

record AssetTransferTxn =
  axfer_sender :: address
  xferAsset :: nat
  assetAmount :: nat
  assetReceiver :: address

text \<open>
  Inner transactions issued by the contract that move value: payments
  (\<^verbatim>\<open>sendPayment\<close>) and asset transfers (\<^verbatim>\<open>sendAssetTransfer\<close>), in the order issued.
\<close>

datatype itxn =
    Payment address nat string
  | AssetXfer nat address nat "address option"

datatype error =
    AssertionFailed string
  | TxnVerifyFailed
  | ArithmeticPanic
  | BoxNotFound
  | ItxnRejected
  | ExternalReadFailed

text \<open>
  What one application call reads from its transaction and from the ledger outside the
  contract: the caller, the transaction id, the application's creator and account, the
  latest block time, the fee sink of the previous block, the ledger's asset opt-in minimum
  balance, asset creators, global state of other applications and the answers of the three
  calls made to the NFD applications (\<open>None\<close> where the read or call fails).
\<close>

record env =
  txn_sender :: address
  txn_txID :: bytes
  app_creator :: address
  app_address :: address
  latestTimestamp :: nat
  feeSink :: address
  assetOptInMinBalance :: nat
  assetCreator :: "nat \<Rightarrow> address option"
  appGlobalState :: "nat \<Rightarrow> bytes \<Rightarrow> bytes option"
  call_isValidNfdAppId :: "nat \<Rightarrow> bytes \<Rightarrow> nat \<Rightarrow> bool option"
  call_readField :: "nat \<Rightarrow> bytes \<Rightarrow> bytes option"
  call_read_property :: "nat \<Rightarrow> bytes \<Rightarrow> bytes option"

text \<open>
  The contract's global state and its three box maps, together with the asset holdings of
  every account (an absent key is an account that has not opted in) and the inner
  transactions issued so far. A call sees the ledger as the transactions before it in its
  group have left it: the holdings given to \<^verbatim>\<open>createDrop\<close> already contain the funding
  transfer, and the payment passed to a call has already reached the application account.
\<close>

record state =
  nfdRegistryAppId :: nat
  maintainerAddress :: address
  creationFeeAmount :: nat
  perClaimFeeAmount :: nat
  totalClaims :: nat
  lastDropId :: TokenDropId
  allDrops :: "(TokenDropId, TokenDropInfo) fmap"
  dropForToken :: "(nat, TokenDropId) fmap"
  claimedMap :: "(AddressClaimKey, ClaimedInfo) fmap"
  holding :: "address \<Rightarrow> (nat, nat) fmap"
  itxns :: "itxn list"

section \<open>Ledger primitives\<close>

text \<open>A value outside the range of \<^verbatim>\<open>uint64\<close>.\<close>

definition overflows :: "nat \<Rightarrow> bool" where
  "overflows n \<longleftrightarrow> n > 18446744073709551615"

definition isOptedInToAsset :: "state \<Rightarrow> address \<Rightarrow> nat \<Rightarrow> bool" where
  "isOptedInToAsset s a asset \<longleftrightarrow> fmlookup (holding s a) asset \<noteq> None"

definition assetBalance :: "state \<Rightarrow> address \<Rightarrow> nat \<Rightarrow> nat" where
  "assetBalance s a asset = (case fmlookup (holding s a) asset of None \<Rightarrow> 0 | Some b \<Rightarrow> b)"

text \<open>
  The minimum balance of the application account as the ledger computes it: the base
  amount, one opt-in amount per asset held, and for every box 2500 plus 400 per byte of
  key and value. Each of the three box maps has keys and values of one fixed size: the
  prefix \<^verbatim>\<open>d\<close>, \<^verbatim>\<open>tok\<close> or \<^verbatim>\<open>c\<close>, the encoded key and the encoded value.
\<close>

definition boxMbr :: "nat \<Rightarrow> nat" where
  "boxMbr numBytes = 2500 + 400 * numBytes"

definition minBalance :: "env \<Rightarrow> state \<Rightarrow> nat" where
  "minBalance env s =
     100000
     + assetOptInMinBalance env * fcard (fmdom (holding s (app_address env)))
     + boxMbr (1 + len_TokenDropId + len_TokenDropInfo) * fcard (fmdom (allDrops s))
     + boxMbr (3 + len_AssetID + len_TokenDropId) * fcard (fmdom (dropForToken s))
     + boxMbr (1 + len_AddressClaimKey + len_ClaimedInfo) * fcard (fmdom (claimedMap s))"

text \<open>
  \<^verbatim>\<open>sendPayment\<close>: the payment is recorded. Whether the ledger accepts a payment
  (the account's Algo balance, fee pooling) is not decided by the contract's code and is
  not modelled.
\<close>

definition sendPayment :: "state \<Rightarrow> address \<Rightarrow> nat \<Rightarrow> string \<Rightarrow> state" where
  "sendPayment s receiver amount note = s\<lparr>itxns := itxns s @ [Payment receiver amount note]\<rparr>"

text \<open>
  \<^verbatim>\<open>sendAssetTransfer\<close> from the application account, after the ledger's rule for asset
  transfers: a zero transfer to oneself allocates the holding when it is absent (opt-in,
  the asset must exist); a non-zero amount is taken from the sender's holding and put into
  the receiver's, both of which must exist; with a close-to address the sender's holding
  must exist, what is left moves to that address and the holding is removed. Frozen
  holdings and clawback are not modelled.
\<close>

definition takeOut :: "(address \<Rightarrow> (nat, nat) fmap) \<Rightarrow> address \<Rightarrow> nat \<Rightarrow> nat \<Rightarrow> (address \<Rightarrow> (nat, nat) fmap) option" where
  "takeOut h a asset amount =
     (if amount = 0 then Some h
      else case fmlookup (h a) asset of
             None \<Rightarrow> None
           | Some b \<Rightarrow> if b < amount then None else Some (h(a := fmupd asset (b - amount) (h a))))"

definition putIn :: "(address \<Rightarrow> (nat, nat) fmap) \<Rightarrow> address \<Rightarrow> nat \<Rightarrow> nat \<Rightarrow> (address \<Rightarrow> (nat, nat) fmap) option" where
  "putIn h a asset amount =
     (if amount = 0 then Some h
      else case fmlookup (h a) asset of
             None \<Rightarrow> None
           | Some b \<Rightarrow> Some (h(a := fmupd asset (b + amount) (h a))))"

definition allocateHolding :: "env \<Rightarrow> (address \<Rightarrow> (nat, nat) fmap) \<Rightarrow> address \<Rightarrow> nat \<Rightarrow> (address \<Rightarrow> (nat, nat) fmap) option" where
  "allocateHolding env h a asset =
     (case fmlookup (h a) asset of
        Some b \<Rightarrow> Some h
      | None \<Rightarrow> (case assetCreator env asset of
                   None \<Rightarrow> None
                 | Some c \<Rightarrow> Some (h(a := fmupd asset 0 (h a)))))"

definition closeHolding :: "(address \<Rightarrow> (nat, nat) fmap) \<Rightarrow> address \<Rightarrow> nat \<Rightarrow> address \<Rightarrow> (address \<Rightarrow> (nat, nat) fmap) option" where
  "closeHolding h a asset closeTo =
     (case fmlookup (h a) asset of
        None \<Rightarrow> None
      | Some b \<Rightarrow>
          (case takeOut h a asset b of
             None \<Rightarrow> None
           | Some h1 \<Rightarrow>
               (case putIn h1 closeTo asset b of
                  None \<Rightarrow> None
                | Some h2 \<Rightarrow> Some (h2(a := fmdrop asset (h2 a))))))"

definition sendAssetTransfer :: "env \<Rightarrow> state \<Rightarrow> nat \<Rightarrow> address \<Rightarrow> nat \<Rightarrow> address option \<Rightarrow> error + state" where
  "sendAssetTransfer env s asset receiver amount closeTo =
     (let app = app_address env in
      case (if amount = 0 \<and> receiver = app then allocateHolding env (holding s) app asset
            else Some (holding s)) of
        None \<Rightarrow> Inl ItxnRejected
      | Some h0 \<Rightarrow>
          (case takeOut h0 app asset amount of
             None \<Rightarrow> Inl ItxnRejected
           | Some h1 \<Rightarrow>
               (case putIn h1 receiver asset amount of
                  None \<Rightarrow> Inl ItxnRejected
                | Some h2 \<Rightarrow>
                    (case (case closeTo of None \<Rightarrow> Some h2 | Some c \<Rightarrow> closeHolding h2 app asset c) of
                       None \<Rightarrow> Inl ItxnRejected
                     | Some h3 \<Rightarrow>
                         Inr (s\<lparr>holding := h3,
                                itxns := itxns s @ [AssetXfer asset receiver amount closeTo]\<rparr>)))))"

section \<open>The contract\<close>

subsection \<open>Creation, administration, opt-in\<close>

definition createApplication :: "(address \<Rightarrow> (nat, nat) fmap) \<Rightarrow> nat \<Rightarrow> address \<Rightarrow> state" where
  "createApplication h nfdRegistryId maintainer =
     \<lparr>nfdRegistryAppId = nfdRegistryId,
      maintainerAddress = maintainer,
      creationFeeAmount = 10000000,
      perClaimFeeAmount = 100000,
      totalClaims = 0,
      lastDropId = 0,
      allDrops = fmempty,
      dropForToken = fmempty,
      claimedMap = fmempty,
      holding = h,
      itxns = []\<rparr>"

text \<open>
  \<^verbatim>\<open>updateApplication\<close> only checks the caller; the program that replaces this one is
  not part of the model.
\<close>

definition updateApplication :: "env \<Rightarrow> state \<Rightarrow> error + state" where
  "updateApplication env s =
     (if txn_sender env \<noteq> app_creator env
      then Inl (AssertionFailed ''Only the creator can update the application'')
      else Inr s)"

definition changeMaintainer :: "env \<Rightarrow> state \<Rightarrow> address \<Rightarrow> error + state" where
  "changeMaintainer env s newMaintainer =
     (if txn_sender env \<noteq> app_creator env then Inl (AssertionFailed ''Only the creator can call'')
      else Inr (s\<lparr>maintainerAddress := newMaintainer\<rparr>))"

definition costForBoxStorage :: "nat \<Rightarrow> nat" where
  "costForBoxStorage totalNumBytes = 2500 + totalNumBytes * 400"

definition getPerClaimerMbrCost :: nat where
  "getPerClaimerMbrCost = costForBoxStorage (1 + len_AddressClaimKey + len_ClaimedInfo)"

definition getPerClaimerFee :: "state \<Rightarrow> nat" where
  "getPerClaimerFee s = perClaimFeeAmount s"

definition getDropCreateCost :: "state \<Rightarrow> error + nat" where
  "getDropCreateCost s =
     (let feeNeeded = creationFeeAmount s;
          feeNeeded1 = feeNeeded + costForBoxStorage (1 + len_TokenDropId + len_TokenDropInfo);
          feeNeeded2 = feeNeeded1 + costForBoxStorage (3 + len_AssetID + len_TokenDropId)
      in if overflows feeNeeded1 \<or> overflows feeNeeded2 then Inl ArithmeticPanic
         else Inr feeNeeded2)"

definition getDropInfo :: "state \<Rightarrow> TokenDropId \<Rightarrow> error + TokenDropInfo" where
  "getDropInfo s tokenDropId =
     (case fmlookup (allDrops s) tokenDropId of None \<Rightarrow> Inl BoxNotFound | Some d \<Rightarrow> Inr d)"

definition changeFees :: "env \<Rightarrow> state \<Rightarrow> nat \<Rightarrow> nat \<Rightarrow> error + state" where
  "changeFees env s creationFee perClaimFee =
     (if txn_sender env \<noteq> app_creator env then Inl (AssertionFailed ''Only the creator can call'')
      else if \<not> creationFee > 2000000 then Inl (AssertionFailed ''fee must be at least 2 algo'')
      else if creationFee mod 2 \<noteq> 0 then Inl (AssertionFailed ''fee must be even amount'')
      else if overflows (getPerClaimerMbrCost * 2) then Inl ArithmeticPanic
      else if \<not> perClaimFee \<ge> getPerClaimerMbrCost * 2
        then Inl (AssertionFailed ''per-claim fee must >= double mbr cost'')
      else Inr (s\<lparr>creationFeeAmount := creationFee, perClaimFeeAmount := perClaimFee\<rparr>))"

text \<open>
  \<^verbatim>\<open>verifyPayTxn\<close> with a plain value for a field demands equality with that value.
\<close>

definition optinAsset :: "env \<Rightarrow> state \<Rightarrow> PayTxn \<Rightarrow> nat \<Rightarrow> error + state" where
  "optinAsset env s mbrPayment assetId =
     (if pay_receiver mbrPayment \<noteq> app_address env
         \<or> pay_amount mbrPayment \<noteq> assetOptInMinBalance env then Inl TxnVerifyFailed
      else if isOptedInToAsset s (app_address env) assetId
        then Inr (sendPayment s (txn_sender env) (assetOptInMinBalance env) ''optin refund'')
      else sendAssetTransfer env s assetId (app_address env) 0 None)"

subsection \<open>Drop bookkeeping\<close>

definition isDropExpiredOrEmpty :: "env \<Rightarrow> TokenDropInfo \<Rightarrow> bool" where
  "isDropExpiredOrEmpty env dropInfo \<longleftrightarrow>
     AmountRemaining dropInfo = 0 \<or> latestTimestamp env > AirdropEndTime (Config dropInfo)"

definition addNewDrop :: "state \<Rightarrow> TokenDropId \<Rightarrow> TokenDropInfo \<Rightarrow> state" where
  "addNewDrop s tokenDropId dropInfo =
     s\<lparr>allDrops := fmupd tokenDropId dropInfo (allDrops s),
       dropForToken := fmupd (Token (Config dropInfo)) tokenDropId (dropForToken s)\<rparr>"

definition removeFromDrops :: "state \<Rightarrow> TokenDropId \<Rightarrow> error + state" where
  "removeFromDrops s tokenDropId =
     (case fmlookup (allDrops s) tokenDropId of
        None \<Rightarrow> Inl BoxNotFound
      | Some dropInfo \<Rightarrow>
          Inr (s\<lparr>dropForToken := fmdrop (Token (Config dropInfo)) (dropForToken s),
                 allDrops := fmdrop tokenDropId (allDrops s)\<rparr>))"

text \<open>
  \<^verbatim>\<open>sendTokensFromDrop\<close> writes the two fields of the box stored under the
  \<^verbatim>\<open>DropId\<close> of the record it is given; a write into an absent box stops the program.
\<close>

definition sendTokensFromDrop :: "env \<Rightarrow> state \<Rightarrow> TokenDropInfo \<Rightarrow> address \<Rightarrow> nat \<Rightarrow> error + (nat \<times> state)" where
  "sendTokensFromDrop env s dropInfo receiver amountToSend =
     (case sendAssetTransfer env s (Token (Config dropInfo)) receiver amountToSend None of
        Inl e \<Rightarrow> Inl e
      | Inr s1 \<Rightarrow>
          if AmountRemaining dropInfo < amountToSend then Inl ArithmeticPanic
          else let remaining = AmountRemaining dropInfo - amountToSend in
            (case fmlookup (allDrops s1) (DropId dropInfo) of
               None \<Rightarrow> Inl BoxNotFound
             | Some stored \<Rightarrow>
                 if overflows (NumClaims stored + 1) then Inl ArithmeticPanic
                 else Inr (remaining,
                           s1\<lparr>allDrops :=
                                fmupd (DropId dropInfo)
                                  (stored\<lparr>AmountRemaining := remaining,
                                          NumClaims := NumClaims stored + 1\<rparr>)
                                  (allDrops s1)\<rparr>)))"

definition refundDropCreatorRemainingTokens :: "env \<Rightarrow> state \<Rightarrow> TokenDropId \<Rightarrow> error + state" where
  "refundDropCreatorRemainingTokens env s tokenDropId =
     (case fmlookup (allDrops s) tokenDropId of
        None \<Rightarrow> Inl BoxNotFound
      | Some dropInfo \<Rightarrow>
          (case (if AmountRemaining dropInfo > 0
                 then map_sum id snd
                        (sendTokensFromDrop env s dropInfo (DropCreator dropInfo) (AmountRemaining dropInfo))
                 else Inr s) of
             Inl e \<Rightarrow> Inl e
           | Inr s1 \<Rightarrow>
               if assetBalance s1 (app_address env) (Token (Config dropInfo)) = 0
               then sendAssetTransfer env s1 (Token (Config dropInfo)) (app_address env) 0
                      (Some (app_address env))
               else Inr s1))"

definition cleanupDrop :: "env \<Rightarrow> state \<Rightarrow> TokenDropId \<Rightarrow> error + state" where
  "cleanupDrop env s tokenDropId =
     (case fmlookup (allDrops s) tokenDropId of
        None \<Rightarrow> Inl BoxNotFound
      | Some dropInfo \<Rightarrow>
          if txn_sender env \<noteq> DropCreator dropInfo \<and> \<not> isDropExpiredOrEmpty env dropInfo
          then Inl (AssertionFailed ''drop MUST be expired or empty'')
          else let preMbr = minBalance env s in
            (case refundDropCreatorRemainingTokens env s tokenDropId of
               Inl e \<Rightarrow> Inl e
             | Inr s1 \<Rightarrow>
                 (case removeFromDrops s1 tokenDropId of
                    Inl e \<Rightarrow> Inl e
                  | Inr s2 \<Rightarrow>
                      if preMbr < minBalance env s2 then Inl ArithmeticPanic
                      else Inr (sendPayment s2 (DropCreator dropInfo) (preMbr - minBalance env s2)
                                  ''refund from removing token drop''))))"

definition cancelDrop :: "env \<Rightarrow> state \<Rightarrow> TokenDropId \<Rightarrow> error + state" where
  "cancelDrop env s tokenDropId =
     (case fmlookup (allDrops s) tokenDropId of
        None \<Rightarrow> Inl BoxNotFound
      | Some dropInfo \<Rightarrow>
          if txn_sender env \<noteq> DropCreator dropInfo
          then Inl (AssertionFailed ''only drop creator can cancel a drop'')
          else cleanupDrop env s tokenDropId)"

definition claimClaimerBoxCost :: "env \<Rightarrow> state \<Rightarrow> TokenDropId \<Rightarrow> address \<Rightarrow> address \<Rightarrow> error + state" where
  "claimClaimerBoxCost env s tokenDropId claimerAddress receiver =
     (case fmlookup (allDrops s) tokenDropId of
        None \<Rightarrow> Inl BoxNotFound
      | Some dropInfo \<Rightarrow>
          if \<not> isDropExpiredOrEmpty env dropInfo
          then Inl (AssertionFailed ''drop MUST be expired or empty!'')
          else let preMbr = minBalance env s;
                   s1 = s\<lparr>claimedMap := fmdrop (tokenDropId, claimerAddress) (claimedMap s)\<rparr>
            in if preMbr < minBalance env s1 then Inl ArithmeticPanic
               else Inr (sendPayment s1 receiver (preMbr - minBalance env s1) []))"

subsection \<open>Entry gating\<close>

definition andThen :: "error + 'a \<Rightarrow> ('a \<Rightarrow> error + 'b) \<Rightarrow> error + 'b" where
  "andThen r f = (case r of Inl e \<Rightarrow> Inl e | Inr x \<Rightarrow> f x)"

definition assertion :: "bool \<Rightarrow> string \<Rightarrow> error + unit" where
  "assertion c msg = (if c then Inr () else Inl (AssertionFailed msg))"

definition btoi :: "bytes \<Rightarrow> error + nat" where
  "btoi b = (if length b > 8 then Inl ArithmeticPanic
             else Inr (foldl (\<lambda>acc c. acc * 256 + of_char c) 0 b))"

definition extract3 :: "bytes \<Rightarrow> nat \<Rightarrow> nat \<Rightarrow> error + bytes" where
  "extract3 b start len = (if start + len > length b then Inl ArithmeticPanic
                           else Inr (take len (drop start b)))"

definition zeroAddress :: address where
  "zeroAddress = replicate 32 (CHR 0x00)"

definition readGlobal :: "env \<Rightarrow> nat \<Rightarrow> bytes \<Rightarrow> error + bytes" where
  "readGlobal env appId key =
     (case appGlobalState env appId key of None \<Rightarrow> Inl ExternalReadFailed | Some v \<Rightarrow> Inr v)"

definition isNfdAppIdValid :: "env \<Rightarrow> state \<Rightarrow> nat \<Rightarrow> error + bool" where
  "isNfdAppIdValid env s nfdAppId =
     andThen (readGlobal env nfdAppId ''i.name'') (\<lambda>userOfferedNFDName.
       case call_isValidNfdAppId env (nfdRegistryAppId s) userOfferedNFDName nfdAppId of
         None \<Rightarrow> Inl ExternalReadFailed
       | Some b \<Rightarrow> Inr b)"

definition isNfdPreV3 :: "env \<Rightarrow> nat \<Rightarrow> error + bool" where
  "isNfdPreV3 env nfdAppId =
     andThen (readGlobal env nfdAppId ''i.ver'') (\<lambda>ver.
     andThen (extract3 ver 0 2) (\<lambda>majVer.
       Inr (majVer = ''1.'' \<or> majVer = ''2.'')))"

definition safeGlobalIntGet :: "env \<Rightarrow> nat \<Rightarrow> bytes \<Rightarrow> error + nat" where
  "safeGlobalIntGet env appId key =
     (case appGlobalState env appId key of None \<Rightarrow> Inr 0 | Some v \<Rightarrow> btoi v)"

definition isNfdForSale :: "env \<Rightarrow> nat \<Rightarrow> error + bool" where
  "isNfdForSale env nfdAppId =
     andThen (safeGlobalIntGet env nfdAppId ''i.sellamt'') (\<lambda>n. Inr (n \<noteq> 0))"

definition isNfdExpired :: "env \<Rightarrow> nat \<Rightarrow> error + bool" where
  "isNfdExpired env nfdAppId =
     andThen (safeGlobalIntGet env nfdAppId ''i.expirationTime'') (\<lambda>expTime.
       if expTime = 0 then Inr False else Inr (latestTimestamp env > expTime))"

function caAlgoLoop :: "bytes \<Rightarrow> address \<Rightarrow> nat \<Rightarrow> error + bool" where
  "caAlgoLoop caAlgoData addrToFind i =
     (if i < length caAlgoData
      then (case extract3 caAlgoData i 32 of
              Inl e \<Rightarrow> Inl e
            | Inr addr \<Rightarrow>
                if addr \<noteq> zeroAddress \<and> addr = addrToFind then Inr True
                else caAlgoLoop caAlgoData addrToFind (i + 32))
      else Inr False)"
  by pat_completeness auto
termination
  by (relation "measure (\<lambda>(d, a, i). length d - i)") auto

definition isAddressInNFDCAAlgoList :: "env \<Rightarrow> nat \<Rightarrow> address \<Rightarrow> error + bool" where
  "isAddressInNFDCAAlgoList env nfdAppId addrToFind =
     (case call_read_property env nfdAppId ''v.caAlgo.0.as'' of
        None \<Rightarrow> Inl ExternalReadFailed
      | Some caAlgoData \<Rightarrow> caAlgoLoop caAlgoData addrToFind 0)"

definition checkValidV3NfdAndOwnedByClaimer :: "env \<Rightarrow> state \<Rightarrow> nat \<Rightarrow> address \<Rightarrow> error + unit" where
  "checkValidV3NfdAndOwnedByClaimer env s valueToVerify claimer =
     andThen (isNfdAppIdValid env s valueToVerify) (\<lambda>valid.
     andThen (assertion valid ''provided NFD must be valid'') (\<lambda>_.
     andThen (isNfdPreV3 env valueToVerify) (\<lambda>preV3.
     andThen (assertion (\<not> preV3) ''NFD must be V3 or later'') (\<lambda>_.
     andThen (isNfdForSale env valueToVerify) (\<lambda>forSale.
     andThen (assertion (\<not> forSale) ''NFD must not be for sale'') (\<lambda>_.
     andThen (isNfdExpired env valueToVerify) (\<lambda>expired.
     andThen (assertion (\<not> expired) ''NFD must not be expired'') (\<lambda>_.
     andThen (readGlobal env valueToVerify ''i.owner.a'') (\<lambda>owner.
       assertion (owner = claimer) ''provided nfd for entry isn't owned by the claimer'')))))))))"

definition gateAssetBalance :: "state \<Rightarrow> TokenDropConfig \<Rightarrow> address \<Rightarrow> nat \<Rightarrow> error + unit" where
  "gateAssetBalance s cfg claimer valueToVerify =
     (if entryGatingType cfg = GATING_TYPE_ASSETS_CREATED_BY
         \<or> entryGatingType cfg = GATING_TYPE_ASSET_ID
         \<or> entryGatingType cfg = GATING_TYPE_CREATED_BY_NFD_ADDRESSES
      then andThen (assertion (valueToVerify \<noteq> 0) []) (\<lambda>_.
             let balRequired = (if gatingAssetMinBalance cfg = 0 then 1 else gatingAssetMinBalance cfg)
             in assertion (assetBalance s claimer valueToVerify \<ge> balRequired)
                  ''must have required minimum balance of validator defined token to add stake'')
      else Inr ())"

definition gateAssetsCreatedBy :: "env \<Rightarrow> TokenDropConfig \<Rightarrow> nat \<Rightarrow> error + unit" where
  "gateAssetsCreatedBy env cfg valueToVerify =
     (if entryGatingType cfg = GATING_TYPE_ASSETS_CREATED_BY
      then (case assetCreator env valueToVerify of
              None \<Rightarrow> Inl ExternalReadFailed
            | Some creator \<Rightarrow>
                assertion (creator = entryGatingAddress cfg)
                  ''specified asset must be created by creator that the validator defined as a requirement to stake'')
      else Inr ())"

definition gateAssetId :: "TokenDropConfig \<Rightarrow> nat \<Rightarrow> error + unit" where
  "gateAssetId cfg valueToVerify =
     (if entryGatingType cfg = GATING_TYPE_ASSET_ID
      then (case entryGatingAssets cfg of (a0, a1, a2, a3) \<Rightarrow>
              assertion (list_ex (\<lambda>assetId. valueToVerify = assetId) [a0, a1, a2, a3])
                ''specified asset must be identical to the asset id defined as a requirement to stake'')
      else Inr ())"

definition gateCreatedByNfdAddresses :: "env \<Rightarrow> TokenDropConfig \<Rightarrow> nat \<Rightarrow> error + unit" where
  "gateCreatedByNfdAddresses env cfg valueToVerify =
     (if entryGatingType cfg = GATING_TYPE_CREATED_BY_NFD_ADDRESSES
      then (case assetCreator env valueToVerify of
              None \<Rightarrow> Inl ExternalReadFailed
            | Some creator \<Rightarrow>
                andThen (isAddressInNFDCAAlgoList env (fst (entryGatingAssets cfg)) creator) (\<lambda>linked.
                  assertion linked
                    ''specified asset must be created by creator that is one of the linked addresses in an nfd''))
      else Inr ())"

definition gateSegmentOfNfd :: "env \<Rightarrow> state \<Rightarrow> TokenDropConfig \<Rightarrow> address \<Rightarrow> nat \<Rightarrow> error + unit" where
  "gateSegmentOfNfd env s cfg claimer valueToVerify =
     (if entryGatingType cfg = GATING_TYPE_SEGMENT_OF_NFD
      then andThen (isNfdAppIdValid env s valueToVerify) (\<lambda>valid.
           andThen (assertion valid ''provided NFD must be valid'') (\<lambda>_.
           andThen (readGlobal env valueToVerify ''i.owner.a'') (\<lambda>owner.
           andThen (if owner = claimer then Inr True
                    else isAddressInNFDCAAlgoList env valueToVerify claimer) (\<lambda>ownedOrLinked.
           andThen (assertion ownedOrLinked ''provided nfd for entry isn't owned or linked to the claimer'') (\<lambda>_.
           andThen (readGlobal env valueToVerify ''i.parentAppID'') (\<lambda>parentBytes.
           andThen (btoi parentBytes) (\<lambda>parent.
             assertion (parent = fst (entryGatingAssets cfg))
               ''specified nfd must be a segment of the nfd the validator specified as a requirement'')))))))
      else Inr ())"

definition gateVerifiedField :: "env \<Rightarrow> state \<Rightarrow> TokenDropConfig \<Rightarrow> address \<Rightarrow> nat \<Rightarrow> nat \<Rightarrow> bytes \<Rightarrow> string \<Rightarrow> error + unit" where
  "gateVerifiedField env s cfg claimer valueToVerify gatingType field msg =
     (if entryGatingType cfg = gatingType
      then andThen (checkValidV3NfdAndOwnedByClaimer env s valueToVerify claimer) (\<lambda>_.
             case call_readField env valueToVerify field of
               None \<Rightarrow> Inl ExternalReadFailed
             | Some twitterVal \<Rightarrow> assertion (twitterVal \<noteq> []) msg)
      else Inr ())"

definition gateNfdHoldingAge :: "env \<Rightarrow> state \<Rightarrow> TokenDropConfig \<Rightarrow> address \<Rightarrow> nat \<Rightarrow> error + unit" where
  "gateNfdHoldingAge env s cfg claimer valueToVerify =
     (if entryGatingType cfg = GATING_TYPE_NFD_HOLDING_AGE
      then andThen (checkValidV3NfdAndOwnedByClaimer env s valueToVerify claimer) (\<lambda>_.
           andThen (readGlobal env valueToVerify ''i.timePurchased'') (\<lambda>purchasedBytes.
           andThen (btoi purchasedBytes) (\<lambda>timePurchased.
             if overflows (gatingAssetMinBalance cfg * 24)
                \<or> overflows (gatingAssetMinBalance cfg * 24 * 60)
                \<or> overflows (gatingAssetMinBalance cfg * 24 * 60 * 60)
                \<or> overflows (timePurchased + gatingAssetMinBalance cfg * 24 * 60 * 60)
             then Inl ArithmeticPanic
             else assertion
                    (timePurchased + gatingAssetMinBalance cfg * 24 * 60 * 60 \<le> latestTimestamp env)
                    ''nfd must be held for min num of days'')))
      else Inr ())"

text \<open>
  \<^verbatim>\<open>doesClaimAccountMeetGating\<close>: the source's sequence of \<^verbatim>\<open>if (type === ...)\<close>
  blocks, one function per block, run in the source's order.
\<close>

definition doesClaimAccountMeetGating :: "env \<Rightarrow> state \<Rightarrow> TokenDropId \<Rightarrow> nat \<Rightarrow> error + unit" where
  "doesClaimAccountMeetGating env s tokenDropId valueToVerify =
     (case fmlookup (allDrops s) tokenDropId of
        None \<Rightarrow> Inl BoxNotFound
      | Some tokenDropInfo \<Rightarrow>
          let cfg = Config tokenDropInfo; claimer = txn_sender env in
          if entryGatingType cfg = GATING_TYPE_NONE then Inr ()
          else
            andThen (gateAssetBalance s cfg claimer valueToVerify) (\<lambda>_.
            andThen (gateAssetsCreatedBy env cfg valueToVerify) (\<lambda>_.
            andThen (gateAssetId cfg valueToVerify) (\<lambda>_.
            andThen (gateCreatedByNfdAddresses env cfg valueToVerify) (\<lambda>_.
            andThen (gateSegmentOfNfd env s cfg claimer valueToVerify) (\<lambda>_.
            andThen (gateVerifiedField env s cfg claimer valueToVerify
                       GATING_TYPE_NFD_W_VERIFIED_TWITTER ''v.twitter'' ''must have verified twitter'') (\<lambda>_.
            andThen (gateVerifiedField env s cfg claimer valueToVerify
                       GATING_TYPE_NFD_W_VERIFIED_BLUESKY ''v.blueskydid'' ''must have verified bluesky'') (\<lambda>_.
              gateNfdHoldingAge env s cfg claimer valueToVerify))))))))"

definition checkGatingInfo :: "env \<Rightarrow> state \<Rightarrow> TokenDropConfig \<Rightarrow> error + unit" where
  "checkGatingInfo env s tokenDropInfo =
     andThen (assertion (entryGatingType tokenDropInfo \<ge> GATING_TYPE_NONE
                         \<and> entryGatingType tokenDropInfo \<le> GATING_TYPE_CONST_MAX) []) (\<lambda>_.
     andThen (if entryGatingType tokenDropInfo = GATING_TYPE_CREATED_BY_NFD_ADDRESSES
                 \<or> entryGatingType tokenDropInfo = GATING_TYPE_SEGMENT_OF_NFD
              then andThen (isNfdAppIdValid env s (fst (entryGatingAssets tokenDropInfo))) (\<lambda>valid.
                     assertion valid ''provided NFD App id for gating must be valid NFD'')
              else Inr ()) (\<lambda>_.
       if entryGatingType tokenDropInfo = GATING_TYPE_NFD_HOLDING_AGE
       then assertion (gatingAssetMinBalance tokenDropInfo > 0)
              ''asset min balance - used as nfd holding age - must be >0''
       else Inr ()))"

subsection \<open>Creating and claiming\<close>

text \<open>
  \<^verbatim>\<open>createDrop\<close>, lines 255 to 297 of the source: everything after the purge of a
  prior drop of the same token.
\<close>

definition createDrop_install :: "env \<Rightarrow> state \<Rightarrow> PayTxn \<Rightarrow> AssetTransferTxn \<Rightarrow> TokenDropConfig \<Rightarrow> error + (TokenDropId \<times> state)" where
  "createDrop_install env s feeAndMbrPayment assetTxn tokenDropConfig =
     (case checkGatingInfo env s tokenDropConfig of
        Inl e \<Rightarrow> Inl e
      | Inr _ \<Rightarrow>
          if overflows (lastDropId s + 1) then Inl ArithmeticPanic
          else if AmountPerClaim tokenDropConfig = 0 then Inl ArithmeticPanic
          else
            let s1 = s\<lparr>lastDropId := lastDropId s + 1\<rparr>;
                tokenDropId = lastDropId s1;
                dropInfo = \<lparr>DropId = tokenDropId,
                            DropCreator = axfer_sender assetTxn,
                            AmountRemaining = assetAmount assetTxn,
                            MaxClaims = assetAmount assetTxn div AmountPerClaim tokenDropConfig,
                            NumClaims = 0,
                            Config = tokenDropConfig\<rparr>;
                s2 = addNewDrop s1 tokenDropId dropInfo
            in
              if pay_receiver feeAndMbrPayment \<noteq> app_address env then Inl TxnVerifyFailed
              else (case getDropCreateCost s2 of
                      Inl e \<Rightarrow> Inl e
                    | Inr mbrCosts \<Rightarrow>
                        if \<not> pay_amount feeAndMbrPayment \<ge> mbrCosts
                        then Inl (AssertionFailed ''must pay at least MBR costs'')
                        else
                          let s3 = (if pay_amount feeAndMbrPayment > mbrCosts
                                    then sendPayment s2 (pay_sender feeAndMbrPayment)
                                           (pay_amount feeAndMbrPayment - mbrCosts) ''excess mbr refund''
                                    else s2);
                              s4 = sendPayment s3 (maintainerAddress s3) (creationFeeAmount s3 div 2)
                                     ''TokenDrop fee'';
                              s5 = sendPayment s4 (feeSink env) (creationFeeAmount s4 div 2)
                                     ''TokenDrop fee''
                          in Inr (tokenDropId, s5)))"

text \<open>Lines 249 to 254: the prior drop of the token, when the index has one.\<close>

definition createDrop_purge :: "env \<Rightarrow> state \<Rightarrow> TokenDropConfig \<Rightarrow> error + state" where
  "createDrop_purge env s tokenDropConfig =
     (case fmlookup (dropForToken s) (Token tokenDropConfig) of
        None \<Rightarrow> Inr s
      | Some priorId \<Rightarrow>
          (case fmlookup (allDrops s) priorId of
             None \<Rightarrow> Inl BoxNotFound
           | Some dropInfo \<Rightarrow>
               if \<not> isDropExpiredOrEmpty env dropInfo
               then Inl (AssertionFailed ''existing drop must be expired or have no remaining tokens'')
               else cleanupDrop env s priorId))"

definition createDrop :: "env \<Rightarrow> state \<Rightarrow> PayTxn \<Rightarrow> AssetTransferTxn \<Rightarrow> TokenDropConfig \<Rightarrow> error + (TokenDropId \<times> state)" where
  "createDrop env s feeAndMbrPayment assetTxn tokenDropConfig =
     (if assetReceiver assetTxn \<noteq> app_address env then Inl TxnVerifyFailed
      else if \<not> assetAmount assetTxn > 0 then Inl (AssertionFailed ''must have a positive amount'')
      else if xferAsset assetTxn \<noteq> Token tokenDropConfig
        then Inl (AssertionFailed ''asset sent must be same as asset specified for drops'')
      else if \<not> isOptedInToAsset s (app_address env) (xferAsset assetTxn)
        then Inl (AssertionFailed ''must opt-in contract first'')
      else if Token tokenDropConfig \<noteq> xferAsset assetTxn
        then Inl (AssertionFailed ''token must match asset being transferred'')
      else if \<not> AmountPerClaim tokenDropConfig \<le> assetAmount assetTxn
        then Inl (AssertionFailed ''amount per claim must be at least amount transferred'')
      else if AmountPerClaim tokenDropConfig = 0 then Inl ArithmeticPanic
      else if assetAmount assetTxn mod AmountPerClaim tokenDropConfig \<noteq> 0
        then Inl (AssertionFailed ''amount must be divisible by amount per claim'')
      else if overflows (latestTimestamp env + 86400) then Inl ArithmeticPanic
      else if \<not> AirdropEndTime tokenDropConfig > latestTimestamp env + 86400
        then Inl (AssertionFailed ''airdrop end time must be at least 1 day into the future'')
      else if overflows (latestTimestamp env + 3600) \<or> overflows (latestTimestamp env + 3600 + 86400 * 7)
        then Inl ArithmeticPanic
      else if \<not> AirdropEndTime tokenDropConfig \<le> latestTimestamp env + 3600 + 86400 * 7
        then Inl (AssertionFailed ''airdrop can't last more than 1 week'')
      else (case createDrop_purge env s tokenDropConfig of
              Inl e \<Rightarrow> Inl e
            | Inr s1 \<Rightarrow> createDrop_install env s1 feeAndMbrPayment assetTxn tokenDropConfig))"

definition claimDrop :: "env \<Rightarrow> state \<Rightarrow> PayTxn \<Rightarrow> TokenDropId \<Rightarrow> nat \<Rightarrow> error + state" where
  "claimDrop env s feeAndMbrPayment tokenDropId valueToVerify =
     (case fmlookup (allDrops s) tokenDropId of
        None \<Rightarrow> Inl BoxNotFound
      | Some dropInfo \<Rightarrow>
          if txn_sender env = DropCreator dropInfo then Inl (AssertionFailed ''drop creator cannot claim'')
          else if isDropExpiredOrEmpty env dropInfo
            then Inl (AssertionFailed ''airdrop has ended or out of tokens'')
          else if \<not> isOptedInToAsset s (txn_sender env) (Token (Config dropInfo))
            then Inl (AssertionFailed ''claimant must already be opted-in to token!'')
          else
            let claimKey = (tokenDropId, txn_sender env) in
            if fmlookup (claimedMap s) claimKey \<noteq> None then Inl (AssertionFailed ''already claimed'')
            else (case doesClaimAccountMeetGating env s tokenDropId valueToVerify of
                    Inl e \<Rightarrow> Inl e
                  | Inr _ \<Rightarrow>
                      let perClaimerFee = getPerClaimerFee s;
                          mbrCost = getPerClaimerMbrCost
                      in
                        if overflows (mbrCost * 2) then Inl ArithmeticPanic
                        else if \<not> perClaimerFee \<ge> mbrCost * 2
                          then Inl (AssertionFailed ''per-claim fee too low'')
                        else if pay_receiver feeAndMbrPayment \<noteq> app_address env
                                \<or> pay_sender feeAndMbrPayment \<noteq> txn_sender env
                                \<or> pay_amount feeAndMbrPayment \<noteq> perClaimerFee
                          then Inl TxnVerifyFailed
                        else if overflows (perClaimerFee * 500) then Inl ArithmeticPanic
                        else
                          let maintainerPortion = (perClaimerFee * 500) div 1000;
                              s1 = sendPayment s (maintainerAddress s) maintainerPortion ''TokenDrop fee''
                          in
                            if perClaimerFee < maintainerPortion
                               \<or> perClaimerFee - maintainerPortion < mbrCost
                            then Inl ArithmeticPanic
                            else
                              let feeSinkPortion = perClaimerFee - maintainerPortion - mbrCost;
                                  s2 = sendPayment s1 (feeSink env) feeSinkPortion ''TokenDrop fee'';
                                  s3 = s2\<lparr>claimedMap := fmupd claimKey (txn_txID env) (claimedMap s2)\<rparr>
                              in
                                if overflows (totalClaims s3 + 1) then Inl ArithmeticPanic
                                else map_sum id snd
                                       (sendTokensFromDrop env (s3\<lparr>totalClaims := totalClaims s3 + 1\<rparr>)
                                          dropInfo (txn_sender env) (AmountPerClaim (Config dropInfo)))))"

subsection \<open>Calls and reachable states\<close>

datatype call =
    UpdateApplication
  | ChangeMaintainer address
  | ChangeFees nat nat
  | OptinAsset PayTxn nat
  | CreateDrop PayTxn AssetTransferTxn TokenDropConfig
  | CancelDrop TokenDropId
  | ClaimDrop PayTxn TokenDropId nat
  | ClaimClaimerBoxCost TokenDropId address address
  | CleanupDrop TokenDropId

fun dispatch :: "env \<Rightarrow> state \<Rightarrow> call \<Rightarrow> error + state" where
  "dispatch env s UpdateApplication = updateApplication env s"
| "dispatch env s (ChangeMaintainer a) = changeMaintainer env s a"
| "dispatch env s (ChangeFees c p) = changeFees env s c p"
| "dispatch env s (OptinAsset pay a) = optinAsset env s pay a"
| "dispatch env s (CreateDrop pay atxn cfg) = map_sum id snd (createDrop env s pay atxn cfg)"
| "dispatch env s (CancelDrop d) = cancelDrop env s d"
| "dispatch env s (ClaimDrop pay d v) = claimDrop env s pay d v"
| "dispatch env s (ClaimClaimerBoxCost d a r) = claimClaimerBoxCost env s d a r"
| "dispatch env s (CleanupDrop d) = cleanupDrop env s d"

text \<open>
  A failed call leaves the ledger as it was: the whole transaction group is rejected.
\<close>

definition commit :: "state \<Rightarrow> error + state \<Rightarrow> state" where
  "commit s r = (case r of Inl e \<Rightarrow> s | Inr s' \<Rightarrow> s')"

text \<open>
  The states the contract can be in: the state after \<^verbatim>\<open>createApplication\<close>, closed
  under successful calls by any caller at any time and under any change of asset holdings
  made by transactions that are not calls of this contract.
\<close>

inductive reachable :: "state \<Rightarrow> bool" where
  reachable_init: "reachable (createApplication h nfdRegistryId maintainer)"
| reachable_call: "reachable s \<Longrightarrow> dispatch env s c = Inr s' \<Longrightarrow> reachable s'"
| reachable_ledger: "reachable s \<Longrightarrow> reachable (s\<lparr>holding := h\<rparr>)"

section \<open>Invariants of the registry\<close>

text \<open>
  The accounting of one drop record, and the shape of the registry: a record is stored
  under its own identifier, identifiers never exceed the last one assigned, the token index
  points at the record of every stored drop and every index entry points at a stored record
  of its token.
\<close>

definition drop_accounting :: "TokenDropInfo \<Rightarrow> bool" where
  "drop_accounting d \<longleftrightarrow>
     NumClaims d \<le> MaxClaims d
     \<and> AmountRemaining d = (MaxClaims d - NumClaims d) * AmountPerClaim (Config d)"

definition registry_inv :: "state \<Rightarrow> bool" where
  "registry_inv s \<longleftrightarrow>
     (\<forall>d info. fmlookup (allDrops s) d = Some info \<longrightarrow>
        DropId info = d \<and> d \<le> lastDropId s
        \<and> fmlookup (dropForToken s) (Token (Config info)) = Some d
        \<and> drop_accounting info)
     \<and> (\<forall>t d. fmlookup (dropForToken s) t = Some d \<longrightarrow>
          (\<exists>info. fmlookup (allDrops s) d = Some info \<and> Token (Config info) = t))"

text \<open>The record that \<^verbatim>\<open>createDrop\<close> stores for a new drop (lines 262 to 269).\<close>

definition newDropInfo :: "TokenDropId \<Rightarrow> AssetTransferTxn \<Rightarrow> TokenDropConfig \<Rightarrow> TokenDropInfo" where
  "newDropInfo i assetTxn cfg =
     \<lparr>DropId = i, DropCreator = axfer_sender assetTxn, AmountRemaining = assetAmount assetTxn,
      MaxClaims = assetAmount assetTxn div AmountPerClaim cfg, NumClaims = 0, Config = cfg\<rparr>"

text \<open>The fee parameters as \<^verbatim>\<open>createApplication\<close> and \<^verbatim>\<open>changeFees\<close> leave them.\<close>

definition fees_inv :: "state \<Rightarrow> bool" where
  "fees_inv s \<longleftrightarrow>
     2000000 < creationFeeAmount s \<and> creationFeeAmount s mod 2 = 0
     \<and> getPerClaimerMbrCost * 2 \<le> perClaimFeeAmount s"

text \<open>
  What the contract keeps of the payment that accompanies a call: the payment less the
  Algo paid out by the inner payments the call has issued.
\<close>

fun paidOut :: "itxn list \<Rightarrow> nat" where
  "paidOut [] = 0"
| "paidOut (Payment receiver amount note # xs) = amount + paidOut xs"
| "paidOut (AssetXfer asset receiver amount closeTo # xs) = paidOut xs"

definition feeRetained :: "state \<Rightarrow> PayTxn \<Rightarrow> state \<Rightarrow> nat" where
  "feeRetained s pay s' = pay_amount pay - paidOut (drop (length (itxns s)) (itxns s'))"

section \<open>A worked example\<close>

text \<open>
  Concrete transactions and states for the theorems below. The application is created
  with the contract opted in to token 7 and holding the 4000 units \<open>creator\<close> has just
  transferred (\<open>ex_s0\<close>); \<open>creator\<close> creates drop 1 with them, at 1000 per claim and
  ending at time 200000 (\<open>ex_s1\<close>); \<open>alice\<close> claims once at time 1000 (\<open>ex_s2\<close>).
  Later \<open>bob\<close> transfers 2000 units (\<open>ex_s3\<close>) and creates a drop of the same token at
  time 300000, when drop 1 has expired (\<open>ex_s3c\<close> after the purge, \<open>ex_s4\<close> at the
  end). In \<open>ex_s1c\<close> drop 1 has been torn down before anyone claimed; in
  \<open>ex_s2_noopt\<close> \<open>alice\<close> has closed her holding of token 7 after her claim; in
  \<open>ex_s1_minfee\<close> the owner has lowered the per-claim fee to 63400, twice the rent of a
  receipt.
\<close>

definition ex_env :: env where
  "ex_env = \<lparr>txn_sender = ''creator'', txn_txID = ''tx0'', app_creator = ''owner'',
             app_address = ''app'', latestTimestamp = 1000, feeSink = ''sink'',
             assetOptInMinBalance = 100000,
             assetCreator = (\<lambda>a. if a = 7 then Some ''creator'' else None),
             appGlobalState = (\<lambda>_ _. None), call_isValidNfdAppId = (\<lambda>_ _ _. None),
             call_readField = (\<lambda>_ _. None), call_read_property = (\<lambda>_ _. None)\<rparr>"

definition ex_holding :: "address \<Rightarrow> (nat, nat) fmap" where
  "ex_holding = (\<lambda>_. fmempty)(''app'' := fmupd 7 4000 fmempty, ''alice'' := fmupd 7 0 fmempty,
                               ''creator'' := fmupd 7 6000 fmempty)"

definition ex_s0 :: state where
  "ex_s0 = createApplication ex_holding 99 ''maint''"

definition ex_cfg :: TokenDropConfig where
  "ex_cfg = \<lparr>Token = 7, AmountPerClaim = 1000, AirdropEndTime = 200000, entryGatingType = 0,
             entryGatingAddress = [], entryGatingAssets = (0, 0, 0, 0), gatingAssetMinBalance = 0\<rparr>"

definition ex_pay :: PayTxn where
  "ex_pay = \<lparr>pay_sender = ''creator'', pay_receiver = ''app'', pay_amount = 10080600\<rparr>"

definition ex_atxn :: AssetTransferTxn where
  "ex_atxn = \<lparr>axfer_sender = ''creator'', xferAsset = 7, assetAmount = 4000, assetReceiver = ''app''\<rparr>"

definition ex_info1 :: TokenDropInfo where
  "ex_info1 = \<lparr>DropId = 1, DropCreator = ''creator'', AmountRemaining = 4000, MaxClaims = 4,
               NumClaims = 0, Config = ex_cfg\<rparr>"

definition ex_s1 :: state where
  "ex_s1 = \<lparr>nfdRegistryAppId = 99, maintainerAddress = ''maint'', creationFeeAmount = 10000000,
            perClaimFeeAmount = 100000, totalClaims = 0, lastDropId = 1,
            allDrops = fmupd 1 ex_info1 fmempty,
            dropForToken = fmupd 7 1 fmempty,
            claimedMap = fmempty,
            holding = ex_holding,
            itxns = [Payment ''maint'' 5000000 ''TokenDrop fee'', Payment ''sink'' 5000000 ''TokenDrop fee'']\<rparr>"

definition ex_envA :: env where
  "ex_envA = ex_env\<lparr>txn_sender := ''alice'', txn_txID := ''tx1''\<rparr>"

definition ex_payA :: PayTxn where
  "ex_payA = \<lparr>pay_sender = ''alice'', pay_receiver = ''app'', pay_amount = 100000\<rparr>"

definition ex_info2 :: TokenDropInfo where
  "ex_info2 = \<lparr>DropId = 1, DropCreator = ''creator'', AmountRemaining = 3000, MaxClaims = 4,
               NumClaims = 1, Config = ex_cfg\<rparr>"

definition ex_holding2 :: "address \<Rightarrow> (nat, nat) fmap" where
  "ex_holding2 = (\<lambda>_. fmempty)(''app'' := fmupd 7 3000 fmempty, ''alice'' := fmupd 7 1000 fmempty,
                                ''creator'' := fmupd 7 6000 fmempty)"

definition ex_s2 :: state where
  "ex_s2 = \<lparr>nfdRegistryAppId = 99, maintainerAddress = ''maint'', creationFeeAmount = 10000000,
            perClaimFeeAmount = 100000, totalClaims = 1, lastDropId = 1,
            allDrops = fmupd 1 ex_info2 fmempty,
            dropForToken = fmupd 7 1 fmempty,
            claimedMap = fmupd (1, ''alice'') ''tx1'' fmempty,
            holding = ex_holding2,
            itxns = [Payment ''maint'' 5000000 ''TokenDrop fee'', Payment ''sink'' 5000000 ''TokenDrop fee'',
                     Payment ''maint'' 50000 ''TokenDrop fee'', Payment ''sink'' 18300 ''TokenDrop fee'',
                     AssetXfer 7 ''alice'' 1000 None]\<rparr>"

definition ex_holding3 :: "address \<Rightarrow> (nat, nat) fmap" where
  "ex_holding3 = (\<lambda>_. fmempty)(''app'' := fmupd 7 5000 fmempty, ''alice'' := fmupd 7 1000 fmempty,
                                ''creator'' := fmupd 7 6000 fmempty, ''bob'' := fmupd 7 0 fmempty)"

definition ex_s3 :: state where
  "ex_s3 = ex_s2\<lparr>holding := ex_holding3\<rparr>"

definition ex_envB :: env where
  "ex_envB = ex_env\<lparr>txn_sender := ''bob'', txn_txID := ''tx2'', latestTimestamp := 300000\<rparr>"

definition ex_cfgB :: TokenDropConfig where
  "ex_cfgB = \<lparr>Token = 7, AmountPerClaim = 500, AirdropEndTime = 500000, entryGatingType = 0,
              entryGatingAddress = [], entryGatingAssets = (0, 0, 0, 0), gatingAssetMinBalance = 0\<rparr>"

definition ex_payB :: PayTxn where
  "ex_payB = \<lparr>pay_sender = ''bob'', pay_receiver = ''app'', pay_amount = 10080600\<rparr>"

definition ex_atxnB :: AssetTransferTxn where
  "ex_atxnB = \<lparr>axfer_sender = ''bob'', xferAsset = 7, assetAmount = 2000, assetReceiver = ''app''\<rparr>"

definition ex_holding4 :: "address \<Rightarrow> (nat, nat) fmap" where
  "ex_holding4 = (\<lambda>_. fmempty)(''app'' := fmupd 7 2000 fmempty, ''alice'' := fmupd 7 1000 fmempty,
                                ''creator'' := fmupd 7 9000 fmempty, ''bob'' := fmupd 7 0 fmempty)"

definition ex_s3c :: state where
  "ex_s3c = \<lparr>nfdRegistryAppId = 99, maintainerAddress = ''maint'', creationFeeAmount = 10000000,
            perClaimFeeAmount = 100000, totalClaims = 1, lastDropId = 1,
            allDrops = fmempty,
            dropForToken = fmempty,
            claimedMap = fmupd (1, ''alice'') ''tx1'' fmempty,
            holding = ex_holding4,
            itxns = [Payment ''maint'' 5000000 ''TokenDrop fee'', Payment ''sink'' 5000000 ''TokenDrop fee'',
                     Payment ''maint'' 50000 ''TokenDrop fee'', Payment ''sink'' 18300 ''TokenDrop fee'',
                     AssetXfer 7 ''alice'' 1000 None,
                     AssetXfer 7 ''creator'' 3000 None,
                     Payment ''creator'' 80600 ''refund from removing token drop'']\<rparr>"

definition ex_infoB :: TokenDropInfo where
  "ex_infoB = \<lparr>DropId = 2, DropCreator = ''bob'', AmountRemaining = 2000, MaxClaims = 4,
               NumClaims = 0, Config = ex_cfgB\<rparr>"

definition ex_s4 :: state where
  "ex_s4 = \<lparr>nfdRegistryAppId = 99, maintainerAddress = ''maint'', creationFeeAmount = 10000000,
            perClaimFeeAmount = 100000, totalClaims = 1, lastDropId = 2,
            allDrops = fmupd 2 ex_infoB fmempty,
            dropForToken = fmupd 7 2 fmempty,
            claimedMap = fmupd (1, ''alice'') ''tx1'' fmempty,
            holding = ex_holding4,
            itxns = [Payment ''maint'' 5000000 ''TokenDrop fee'', Payment ''sink'' 5000000 ''TokenDrop fee'',
                     Payment ''maint'' 50000 ''TokenDrop fee'', Payment ''sink'' 18300 ''TokenDrop fee'',
                     AssetXfer 7 ''alice'' 1000 None,
                     AssetXfer 7 ''creator'' 3000 None,
                     Payment ''creator'' 80600 ''refund from removing token drop'',
                     Payment ''maint'' 5000000 ''TokenDrop fee'', Payment ''sink'' 5000000 ''TokenDrop fee'']\<rparr>"

definition ex_envA_late :: env where
  "ex_envA_late = ex_envA\<lparr>latestTimestamp := 300000\<rparr>"

definition ex_cfg6h :: TokenDropConfig where
  "ex_cfg6h = ex_cfg\<lparr>AirdropEndTime := 1000 + 6 * 3600\<rparr>"

definition ex_cfg8d :: TokenDropConfig where
  "ex_cfg8d = ex_cfg\<lparr>AirdropEndTime := 1000 + 8 * 86400\<rparr>"

definition ex_envO :: env where
  "ex_envO = ex_env\<lparr>txn_sender := ''owner''\<rparr>"

definition ex_s2_noopt :: state where
  "ex_s2_noopt = ex_s2\<lparr>holding := ex_holding2(''alice'' := fmempty)\<rparr>"



definition ex_payA_over :: PayTxn where
  "ex_payA_over = \<lparr>pay_sender = ''alice'', pay_receiver = ''app'', pay_amount = 100001\<rparr>"

definition ex_payOpt :: PayTxn where
  "ex_payOpt = \<lparr>pay_sender = ''creator'', pay_receiver = ''app'', pay_amount = 100000\<rparr>"

definition ex_payOpt_over :: PayTxn where
  "ex_payOpt_over = \<lparr>pay_sender = ''creator'', pay_receiver = ''app'', pay_amount = 100001\<rparr>"

definition ex_s1_odd :: state where
  "ex_s1_odd = ex_s1\<lparr>perClaimFeeAmount := 100001\<rparr>"

definition ex_s2_odd :: state where
  "ex_s2_odd = \<lparr>nfdRegistryAppId = 99, maintainerAddress = ''maint'', creationFeeAmount = 10000000,
            perClaimFeeAmount = 100001, totalClaims = 1, lastDropId = 1,
            allDrops = fmupd 1 ex_info2 fmempty,
            dropForToken = fmupd 7 1 fmempty,
            claimedMap = fmupd (1, ''alice'') ''tx1'' fmempty,
            holding = ex_holding2,
            itxns = [Payment ''maint'' 5000000 ''TokenDrop fee'', Payment ''sink'' 5000000 ''TokenDrop fee'',
                     Payment ''maint'' 50000 ''TokenDrop fee'', Payment ''sink'' 18301 ''TokenDrop fee'',
                     AssetXfer 7 ''alice'' 1000 None]\<rparr>"



section \<open>Effects of the operations and invariants\<close>

lemmas gating_type_defs =
  GATING_TYPE_NONE_def GATING_TYPE_ASSETS_CREATED_BY_def GATING_TYPE_ASSET_ID_def
  GATING_TYPE_CREATED_BY_NFD_ADDRESSES_def GATING_TYPE_SEGMENT_OF_NFD_def
  GATING_TYPE_NFD_W_VERIFIED_TWITTER_def GATING_TYPE_NFD_W_VERIFIED_BLUESKY_def
  GATING_TYPE_NFD_HOLDING_AGE_def GATING_TYPE_CONST_MAX_def

lemmas len_defs =
  len_TokenDropId_def len_AssetID_def len_TokenDropConfig_def len_TokenDropInfo_def
  len_AddressClaimKey_def len_ClaimedInfo_def

lemma sendAssetTransfer_Inr:
  assumes "sendAssetTransfer env s a r n c = Inr s'"
  shows "\<exists>h. s' = s\<lparr>holding := h, itxns := itxns s @ [AssetXfer a r n c]\<rparr>"
  using assms
  by (auto simp: sendAssetTransfer_def Let_def split: option.splits if_splits)

lemma sendTokensFromDrop_Inr:
  assumes "sendTokensFromDrop env s dropInfo r n = Inr (rem, s')"
  shows "\<exists>h stored. fmlookup (allDrops s) (DropId dropInfo) = Some stored
           \<and> n \<le> AmountRemaining dropInfo \<and> rem = AmountRemaining dropInfo - n
           \<and> s' = s\<lparr>holding := h,
                     itxns := itxns s @ [AssetXfer (Token (Config dropInfo)) r n None],
                     allDrops := fmupd (DropId dropInfo)
                        (stored\<lparr>AmountRemaining := AmountRemaining dropInfo - n,
                                NumClaims := NumClaims stored + 1\<rparr>) (allDrops s)\<rparr>"
  using assms
  by (auto simp: sendTokensFromDrop_def Let_def split: sum.splits option.splits if_splits
           dest!: sendAssetTransfer_Inr)

lemma map_sum_snd_Inr: "map_sum id snd x = Inr y \<longleftrightarrow> (\<exists>r. x = Inr (r, y))"
  by (cases x) auto

lemma registry_inv_frame:
  assumes "registry_inv s" "allDrops s' = allDrops s" "dropForToken s' = dropForToken s"
    "lastDropId s' = lastDropId s"
  shows "registry_inv s'"
  using assms by (simp add: registry_inv_def)

lemma refund_Inr:
  assumes "refundDropCreatorRemainingTokens env s d = Inr s1"
    and "fmlookup (allDrops s) d = Some info" and "DropId info = d"
  shows "\<exists>h tx. s1 = s\<lparr>holding := h, itxns := itxns s @ tx,
            allDrops := (if 0 < AmountRemaining info
                         then fmupd d (info\<lparr>AmountRemaining := 0, NumClaims := NumClaims info + 1\<rparr>) (allDrops s)
                         else allDrops s)\<rparr>"
proof (cases "0 < AmountRemaining info")
  case True
  with assms obtain r sa where
    a: "sendTokensFromDrop env s info (DropCreator info) (AmountRemaining info) = Inr (r, sa)"
    and b: "(if assetBalance sa (app_address env) (Token (Config info)) = 0
             then sendAssetTransfer env sa (Token (Config info)) (app_address env) 0 (Some (app_address env))
             else Inr sa) = Inr s1"
    by (auto simp: refundDropCreatorRemainingTokens_def map_sum_snd_Inr split: sum.splits)
  from sendTokensFromDrop_Inr[OF a] assms obtain h where
    sa: "sa = s\<lparr>holding := h,
                itxns := itxns s @ [AssetXfer (Token (Config info)) (DropCreator info) (AmountRemaining info) None],
                allDrops := fmupd d (info\<lparr>AmountRemaining := 0, NumClaims := NumClaims info + 1\<rparr>) (allDrops s)\<rparr>"
    by auto
  show ?thesis
  proof (cases "assetBalance sa (app_address env) (Token (Config info)) = 0")
    case z: True
    with b have "sendAssetTransfer env sa (Token (Config info)) (app_address env) 0 (Some (app_address env)) = Inr s1"
      by simp
    from sendAssetTransfer_Inr[OF this] obtain h' where
      "s1 = sa\<lparr>holding := h', itxns := itxns sa @ [AssetXfer (Token (Config info)) (app_address env) 0 (Some (app_address env))]\<rparr>"
      by blast
    with sa True show ?thesis
      by (intro exI[of _ h'] exI[of _ "[AssetXfer (Token (Config info)) (DropCreator info) (AmountRemaining info) None,
             AssetXfer (Token (Config info)) (app_address env) 0 (Some (app_address env))]"]) simp
  next
    case False
    with b have "s1 = sa" by simp
    with sa True show ?thesis
      by (intro exI[of _ h] exI[of _ "[AssetXfer (Token (Config info)) (DropCreator info) (AmountRemaining info) None]"]) simp
  qed
next
  case False
  with assms have b: "(if assetBalance s (app_address env) (Token (Config info)) = 0
             then sendAssetTransfer env s (Token (Config info)) (app_address env) 0 (Some (app_address env))
             else Inr s) = Inr s1"
    by (auto simp: refundDropCreatorRemainingTokens_def split: sum.splits)
  show ?thesis
  proof (cases "assetBalance s (app_address env) (Token (Config info)) = 0")
    case True
    with b have "sendAssetTransfer env s (Token (Config info)) (app_address env) 0 (Some (app_address env)) = Inr s1"
      by simp
    from sendAssetTransfer_Inr[OF this] obtain h' where
      "s1 = s\<lparr>holding := h', itxns := itxns s @ [AssetXfer (Token (Config info)) (app_address env) 0 (Some (app_address env))]\<rparr>"
      by blast
    with False show ?thesis
      by (intro exI[of _ h'] exI[of _ "[AssetXfer (Token (Config info)) (app_address env) 0 (Some (app_address env))]"]) simp
  next
    case nz: False
    with b have "s1 = s" by simp
    with False show ?thesis
      by (intro exI[of _ "holding s"] exI[of _ "[]"]) simp
  qed
qed

lemma cleanupDrop_Inr:
  assumes "cleanupDrop env s d = Inr s'"
    and "fmlookup (allDrops s) d = Some info" and "DropId info = d"
  shows "\<exists>h tx. s' = s\<lparr>holding := h, itxns := itxns s @ tx,
            allDrops := fmdrop d (allDrops s),
            dropForToken := fmdrop (Token (Config info)) (dropForToken s)\<rparr>"
proof -
  from assms obtain s1 s2 where
    r: "refundDropCreatorRemainingTokens env s d = Inr s1"
    and m: "removeFromDrops s1 d = Inr s2"
    and p: "s' = sendPayment s2 (DropCreator info) (minBalance env s - minBalance env s2) ''refund from removing token drop''"
    by (auto simp: cleanupDrop_def Let_def split: sum.splits if_splits)
  from refund_Inr[OF r assms(2,3)] obtain h tx where
    s1: "s1 = s\<lparr>holding := h, itxns := itxns s @ tx,
            allDrops := (if 0 < AmountRemaining info
                         then fmupd d (info\<lparr>AmountRemaining := 0, NumClaims := NumClaims info + 1\<rparr>) (allDrops s)
                         else allDrops s)\<rparr>"
    by blast
  have "s2 = s1\<lparr>dropForToken := fmdrop (Token (Config info)) (dropForToken s1),
                allDrops := fmdrop d (allDrops s1)\<rparr>"
    using m s1 assms(2) by (auto simp: removeFromDrops_def split: option.splits if_splits)
  with s1 p show ?thesis
    by (intro exI[of _ h] exI[of _ "tx @ [Payment (DropCreator info) (minBalance env s - minBalance env s2) ''refund from removing token drop'']"])
       (auto simp: sendPayment_def fmdrop_fmupd_same)
qed

lemma registry_inv_cleanupDrop:
  assumes "registry_inv s" "cleanupDrop env s d = Inr s'"
  shows "registry_inv s' \<and> fmlookup (allDrops s') d = None
         \<and> (\<forall>info. fmlookup (allDrops s) d = Some info \<longrightarrow> fmlookup (dropForToken s') (Token (Config info)) = None)"
proof -
  from assms(2) obtain info where i: "fmlookup (allDrops s) d = Some info"
    by (auto simp: cleanupDrop_def split: option.splits)
  with assms(1) have id: "DropId info = d" by (auto simp: registry_inv_def)
  from cleanupDrop_Inr[OF assms(2) i id] obtain h tx where
    s': "s' = s\<lparr>holding := h, itxns := itxns s @ tx,
            allDrops := fmdrop d (allDrops s),
            dropForToken := fmdrop (Token (Config info)) (dropForToken s)\<rparr>" by blast
  have "registry_inv s'"
    unfolding registry_inv_def
  proof (intro conjI allI impI)
    fix d' info' assume a: "fmlookup (allDrops s') d' = Some info'"
    then have ne: "d' \<noteq> d" and l: "fmlookup (allDrops s) d' = Some info'"
      using s' by (auto split: if_splits)
    from assms(1) l have f: "DropId info' = d'" "d' \<le> lastDropId s"
      "fmlookup (dropForToken s) (Token (Config info')) = Some d'" "drop_accounting info'"
      by (auto simp: registry_inv_def)
    from assms(1) i have "fmlookup (dropForToken s) (Token (Config info)) = Some d"
      by (auto simp: registry_inv_def)
    with f(3) ne have "Token (Config info') \<noteq> Token (Config info)" by auto
    with f s' show "DropId info' = d'" "d' \<le> lastDropId s'"
      "fmlookup (dropForToken s') (Token (Config info')) = Some d'" "drop_accounting info'"
      by auto
  next
    fix t d' assume a: "fmlookup (dropForToken s') t = Some d'"
    then have ne: "t \<noteq> Token (Config info)" and l: "fmlookup (dropForToken s) t = Some d'"
      using s' by (auto split: if_splits)
    from assms(1) l obtain info' where i': "fmlookup (allDrops s) d' = Some info'" "Token (Config info') = t"
      unfolding registry_inv_def by blast
    with ne i have "d' \<noteq> d" by auto
    with i' s' show "\<exists>info. fmlookup (allDrops s') d' = Some info \<and> Token (Config info) = t"
      by auto
  qed
  with s' i show ?thesis by auto
qed

lemma claimDrop_Inr:
  assumes "claimDrop env s pay d v = Inr s'"
    and "fmlookup (allDrops s) d = Some info" and "DropId info = d"
  shows "txn_sender env \<noteq> DropCreator info
       \<and> \<not> isDropExpiredOrEmpty env info
       \<and> isOptedInToAsset s (txn_sender env) (Token (Config info))
       \<and> fmlookup (claimedMap s) (d, txn_sender env) = None
       \<and> perClaimFeeAmount s \<ge> getPerClaimerMbrCost * 2
       \<and> pay_amount pay = perClaimFeeAmount s
       \<and> AmountPerClaim (Config info) \<le> AmountRemaining info
       \<and> (\<exists>h. s' = s\<lparr>holding := h,
                 itxns := itxns s @
                   [Payment (maintainerAddress s) (perClaimFeeAmount s * 500 div 1000) ''TokenDrop fee'',
                    Payment (feeSink env)
                      (perClaimFeeAmount s - perClaimFeeAmount s * 500 div 1000 - getPerClaimerMbrCost)
                      ''TokenDrop fee'',
                    AssetXfer (Token (Config info)) (txn_sender env) (AmountPerClaim (Config info)) None],
                 claimedMap := fmupd (d, txn_sender env) (txn_txID env) (claimedMap s),
                 totalClaims := totalClaims s + 1,
                 allDrops := fmupd d
                    (info\<lparr>AmountRemaining := AmountRemaining info - AmountPerClaim (Config info),
                          NumClaims := NumClaims info + 1\<rparr>) (allDrops s)\<rparr>)"
proof -
  let ?F = "perClaimFeeAmount s"
  let ?s3 = "s\<lparr>itxns := itxns s @
                   [Payment (maintainerAddress s) (?F * 500 div 1000) ''TokenDrop fee'',
                    Payment (feeSink env) (?F - ?F * 500 div 1000 - getPerClaimerMbrCost) ''TokenDrop fee''],
               claimedMap := fmupd (d, txn_sender env) (txn_txID env) (claimedMap s),
               totalClaims := totalClaims s + 1\<rparr>"
  from assms(1,2) have pre: "txn_sender env \<noteq> DropCreator info"
       "\<not> isDropExpiredOrEmpty env info"
       "isOptedInToAsset s (txn_sender env) (Token (Config info))"
       "fmlookup (claimedMap s) (d, txn_sender env) = None"
       "?F \<ge> getPerClaimerMbrCost * 2"
       "pay_amount pay = ?F"
    and "\<exists>r. sendTokensFromDrop env ?s3 info (txn_sender env) (AmountPerClaim (Config info)) = Inr (r, s')"
    by (auto simp: claimDrop_def Let_def getPerClaimerFee_def sendPayment_def map_sum_snd_Inr
             split: sum.splits if_splits)
  then obtain r where "sendTokensFromDrop env ?s3 info (txn_sender env) (AmountPerClaim (Config info)) = Inr (r, s')"
    by blast
  from sendTokensFromDrop_Inr[OF this] assms(2,3) obtain h where
    le: "AmountPerClaim (Config info) \<le> AmountRemaining info"
    and s': "s' = ?s3\<lparr>holding := h,
                 itxns := itxns ?s3 @ [AssetXfer (Token (Config info)) (txn_sender env) (AmountPerClaim (Config info)) None],
                 allDrops := fmupd d
                    (info\<lparr>AmountRemaining := AmountRemaining info - AmountPerClaim (Config info),
                          NumClaims := NumClaims info + 1\<rparr>) (allDrops ?s3)\<rparr>"
    by auto
  have "\<exists>h. s' = s\<lparr>holding := h,
                 itxns := itxns s @
                   [Payment (maintainerAddress s) (?F * 500 div 1000) ''TokenDrop fee'',
                    Payment (feeSink env) (?F - ?F * 500 div 1000 - getPerClaimerMbrCost) ''TokenDrop fee'',
                    AssetXfer (Token (Config info)) (txn_sender env) (AmountPerClaim (Config info)) None],
                 claimedMap := fmupd (d, txn_sender env) (txn_txID env) (claimedMap s),
                 totalClaims := totalClaims s + 1,
                 allDrops := fmupd d
                    (info\<lparr>AmountRemaining := AmountRemaining info - AmountPerClaim (Config info),
                          NumClaims := NumClaims info + 1\<rparr>) (allDrops s)\<rparr>"
    by (rule exI[of _ h]) (simp add: s')
  with pre le show ?thesis by blast
qed

lemma getDropCreateCost_Inr:
  "getDropCreateCost s = Inr c \<Longrightarrow> c = creationFeeAmount s + 80600"
  by (auto simp: getDropCreateCost_def Let_def costForBoxStorage_def len_defs split: if_splits)

lemma createDrop_install_Inr:
  assumes "createDrop_install env s pay atxn cfg = Inr (i, s')"
  shows "i = lastDropId s + 1 \<and> AmountPerClaim cfg \<noteq> 0 \<and> pay_receiver pay = app_address env
       \<and> creationFeeAmount s + 80600 \<le> pay_amount pay
       \<and> s' = s\<lparr>lastDropId := lastDropId s + 1,
                 allDrops := fmupd (lastDropId s + 1) (newDropInfo (lastDropId s + 1) atxn cfg) (allDrops s),
                 dropForToken := fmupd (Token cfg) (lastDropId s + 1) (dropForToken s),
                 itxns := itxns s @
                   (if creationFeeAmount s + 80600 < pay_amount pay
                    then [Payment (pay_sender pay) (pay_amount pay - (creationFeeAmount s + 80600)) ''excess mbr refund'']
                    else []) @
                   [Payment (maintainerAddress s) (creationFeeAmount s div 2) ''TokenDrop fee'',
                    Payment (feeSink env) (creationFeeAmount s div 2) ''TokenDrop fee'']\<rparr>"
proof -
  let ?s2 = "addNewDrop (s\<lparr>lastDropId := lastDropId s + 1\<rparr>) (lastDropId s + 1) (newDropInfo (lastDropId s + 1) atxn cfg)"
  from assms obtain c where c: "getDropCreateCost ?s2 = Inr c"
    by (auto simp: createDrop_install_def Let_def newDropInfo_def split: sum.splits if_splits)
  from getDropCreateCost_Inr[OF c] have c': "c = creationFeeAmount s + 80600"
    by (simp add: addNewDrop_def)
  from assms c show ?thesis unfolding c'
    by (auto simp: createDrop_install_def Let_def newDropInfo_def addNewDrop_def sendPayment_def
             split: sum.splits if_splits)
qed

lemma registry_inv_install:
  assumes inv: "registry_inv s"
    and none: "fmlookup (dropForToken s) (Token cfg) = None"
    and dv: "assetAmount atxn mod AmountPerClaim cfg = 0"
    and r: "createDrop_install env s pay atxn cfg = Inr (i, s')"
  shows "registry_inv s'"
proof -
  let ?i = "lastDropId s + 1"
  from createDrop_install_Inr[OF r] have
    s': "allDrops s' = fmupd ?i (newDropInfo ?i atxn cfg) (allDrops s)"
        "dropForToken s' = fmupd (Token cfg) ?i (dropForToken s)"
        "lastDropId s' = ?i"
    by auto
  have fresh: "fmlookup (allDrops s) ?i = None"
  proof (cases "fmlookup (allDrops s) ?i")
    case (Some x)
    with inv have "?i \<le> lastDropId s" unfolding registry_inv_def by blast
    then show ?thesis by simp
  qed simp
  have acc: "drop_accounting (newDropInfo ?i atxn cfg)"
    using dv by (auto simp: drop_accounting_def newDropInfo_def)
  show ?thesis
    unfolding registry_inv_def
  proof (rule conjI; intro allI impI)
    fix d info assume a: "fmlookup (allDrops s') d = Some info"
    show "DropId info = d \<and> d \<le> lastDropId s'
        \<and> fmlookup (dropForToken s') (Token (Config info)) = Some d \<and> drop_accounting info"
    proof (cases "d = ?i")
      case True
      with a s' have "info = newDropInfo ?i atxn cfg" by simp
      with True acc s' show ?thesis by (simp add: newDropInfo_def)
    next
      case False
      with a s' have l: "fmlookup (allDrops s) d = Some info" by simp
      with inv have f: "DropId info = d" "d \<le> lastDropId s"
        "fmlookup (dropForToken s) (Token (Config info)) = Some d" "drop_accounting info"
        unfolding registry_inv_def by blast+
      from f(3) none have "Token (Config info) \<noteq> Token cfg" by auto
      with f s' show ?thesis by simp
    qed
  next
    fix t d assume a: "fmlookup (dropForToken s') t = Some d"
    show "\<exists>info. fmlookup (allDrops s') d = Some info \<and> Token (Config info) = t"
    proof (cases "t = Token cfg")
      case True
      with a s' have "d = ?i" by simp
      with True s' show ?thesis by (simp add: newDropInfo_def)
    next
      case False
      with a s' have l: "fmlookup (dropForToken s) t = Some d" by simp
      with inv obtain info where i: "fmlookup (allDrops s) d = Some info" "Token (Config info) = t"
        unfolding registry_inv_def by blast
      with fresh have "d \<noteq> ?i" by auto
      with i s' show ?thesis by simp
    qed
  qed
qed

lemma registry_inv_purge:
  assumes inv: "registry_inv s" and r: "createDrop_purge env s cfg = Inr s1"
  shows "registry_inv s1 \<and> fmlookup (dropForToken s1) (Token cfg) = None"
proof (cases "fmlookup (dropForToken s) (Token cfg)")
  case None
  with r have "s1 = s" by (simp add: createDrop_purge_def)
  with None inv show ?thesis by simp
next
  case (Some p)
  with inv obtain info where i: "fmlookup (allDrops s) p = Some info" "Token (Config info) = Token cfg"
    unfolding registry_inv_def by blast
  with r Some have "cleanupDrop env s p = Inr s1"
    by (auto simp: createDrop_purge_def split: if_splits)
  from registry_inv_cleanupDrop[OF inv this] i show ?thesis by auto
qed

lemma createDrop_Inr:
  assumes "createDrop env s pay atxn cfg = Inr (i, s')"
  shows "assetReceiver atxn = app_address env \<and> 0 < assetAmount atxn \<and> xferAsset atxn = Token cfg
       \<and> isOptedInToAsset s (app_address env) (Token cfg)
       \<and> AmountPerClaim cfg \<le> assetAmount atxn \<and> 0 < AmountPerClaim cfg
       \<and> assetAmount atxn mod AmountPerClaim cfg = 0
       \<and> latestTimestamp env + 86400 < AirdropEndTime cfg
       \<and> AirdropEndTime cfg \<le> latestTimestamp env + 3600 + 86400 * 7
       \<and> (\<exists>s1. createDrop_purge env s cfg = Inr s1 \<and> createDrop_install env s1 pay atxn cfg = Inr (i, s'))"
  using assms
  by (simp add: createDrop_def split: if_splits sum.splits)

lemma registry_inv_createDrop:
  assumes "registry_inv s" "createDrop env s pay atxn cfg = Inr (i, s')"
  shows "registry_inv s'"
proof -
  from createDrop_Inr[OF assms(2)] obtain s1 where
    dv: "assetAmount atxn mod AmountPerClaim cfg = 0"
    and p: "createDrop_purge env s cfg = Inr s1"
    and i: "createDrop_install env s1 pay atxn cfg = Inr (i, s')"
    by auto
  from registry_inv_purge[OF assms(1) p] registry_inv_install[OF _ _ dv i]
  show ?thesis by blast
qed

lemma registry_inv_claimDrop:
  assumes inv: "registry_inv s" and r: "claimDrop env s pay d v = Inr s'"
  shows "registry_inv s'"
proof -
  from r obtain info where i: "fmlookup (allDrops s) d = Some info"
    by (auto simp: claimDrop_def split: option.splits)
  with inv have f: "DropId info = d" "d \<le> lastDropId s"
        "fmlookup (dropForToken s) (Token (Config info)) = Some d" "drop_accounting info"
    unfolding registry_inv_def by blast+
  let ?info' = "info\<lparr>AmountRemaining := AmountRemaining info - AmountPerClaim (Config info),
                          NumClaims := NumClaims info + 1\<rparr>"
  from claimDrop_Inr[OF r i f(1)] have
    ne: "\<not> isDropExpiredOrEmpty env info"
    and le: "AmountPerClaim (Config info) \<le> AmountRemaining info"
    and s': "allDrops s' = fmupd d ?info' (allDrops s)" "dropForToken s' = dropForToken s"
       "lastDropId s' = lastDropId s"
    by auto
  from ne have pos: "AmountRemaining info \<noteq> 0" by (simp add: isDropExpiredOrEmpty_def)
  with f(4) have lt: "NumClaims info < MaxClaims info"
    by (cases "NumClaims info < MaxClaims info") (auto simp: drop_accounting_def)
  have "(MaxClaims info - NumClaims info) * AmountPerClaim (Config info) - AmountPerClaim (Config info)
        = (MaxClaims info - (NumClaims info + 1)) * AmountPerClaim (Config info)"
    by (simp add: diff_mult_distrib)
  with f(4) lt have acc: "drop_accounting ?info'"
    by (simp add: drop_accounting_def)
  show ?thesis
    unfolding registry_inv_def
  proof (rule conjI; intro allI impI)
    fix d' info' assume a: "fmlookup (allDrops s') d' = Some info'"
    show "DropId info' = d' \<and> d' \<le> lastDropId s'
        \<and> fmlookup (dropForToken s') (Token (Config info')) = Some d' \<and> drop_accounting info'"
    proof (cases "d' = d")
      case True
      with a s' have "info' = ?info'" by simp
      with True acc f s' show ?thesis by simp
    next
      case False
      with a s' have "fmlookup (allDrops s) d' = Some info'" by simp
      with inv s' show ?thesis unfolding registry_inv_def by simp
    qed
  next
    fix t d' assume "fmlookup (dropForToken s') t = Some d'"
    with s' have "fmlookup (dropForToken s) t = Some d'" by simp
    with inv obtain info' where i': "fmlookup (allDrops s) d' = Some info'" "Token (Config info') = t"
      unfolding registry_inv_def by blast
    show "\<exists>info. fmlookup (allDrops s') d' = Some info \<and> Token (Config info) = t"
    proof (cases "d' = d")
      case True
      with i' i s' show ?thesis by simp
    next
      case False
      with i' s' show ?thesis by simp
    qed
  qed
qed

lemma registry_inv_dispatch:
  assumes inv: "registry_inv s" and r: "dispatch env s c = Inr s'"
  shows "registry_inv s'"
proof (cases c)
  case UpdateApplication
  with r inv show ?thesis by (auto simp: updateApplication_def split: if_splits)
next
  case (ChangeMaintainer a)
  with r inv show ?thesis
    by (auto simp: changeMaintainer_def split: if_splits intro: registry_inv_frame)
next
  case (ChangeFees x y)
  with r inv show ?thesis
    by (auto simp: changeFees_def split: if_splits intro: registry_inv_frame)
next
  case (OptinAsset pay a)
  with r inv show ?thesis
    by (auto simp: optinAsset_def sendPayment_def split: if_splits
             dest!: sendAssetTransfer_Inr intro: registry_inv_frame)
next
  case (CreateDrop pay atxn cfg)
  with r obtain i where "createDrop env s pay atxn cfg = Inr (i, s')"
    by (auto simp: map_sum_snd_Inr)
  from registry_inv_createDrop[OF inv this] show ?thesis .
next
  case (CancelDrop d)
  with r have "cleanupDrop env s d = Inr s'"
    by (auto simp: cancelDrop_def split: option.splits if_splits)
  from registry_inv_cleanupDrop[OF inv this] show ?thesis by simp
next
  case (ClaimDrop pay d v)
  with r registry_inv_claimDrop[OF inv] show ?thesis by simp
next
  case (ClaimClaimerBoxCost d a rcv)
  with r inv show ?thesis
    by (auto simp: claimClaimerBoxCost_def Let_def sendPayment_def split: option.splits if_splits
             intro: registry_inv_frame)
next
  case (CleanupDrop d)
  with r registry_inv_cleanupDrop[OF inv] show ?thesis by simp
qed

lemma reachable_registry_inv: "reachable s \<Longrightarrow> registry_inv s"
proof (induction rule: reachable.induct)
  case (reachable_init h nfdRegistryId maintainer)
  show ?case by (simp add: registry_inv_def createApplication_def)
next
  case (reachable_call s env c s')
  then show ?case by (blast intro: registry_inv_dispatch)
next
  case (reachable_ledger s h)
  then show ?case by (auto intro: registry_inv_frame)
qed

lemma takeOut_Some:
  assumes "takeOut h a x n = Some h'" and "0 < n"
  shows "\<exists>b. fmlookup (h a) x = Some b \<and> n \<le> b \<and> h' = h(a := fmupd x (b - n) (h a))"
  using assms by (auto simp: takeOut_def split: option.splits if_splits)

lemma putIn_Some:
  assumes "putIn h a x n = Some h'" and "0 < n"
  shows "\<exists>b. fmlookup (h a) x = Some b \<and> h' = h(a := fmupd x (b + n) (h a))"
  using assms by (auto simp: putIn_def split: option.splits if_splits)

text \<open>A transfer of a positive amount moves balances and leaves every opt-in as it was.\<close>

lemma sendAssetTransfer_plain:
  assumes r: "sendAssetTransfer env s x rcv n None = Inr s'" and pos: "0 < n"
  shows "(\<forall>a. fmdom (holding s' a) = fmdom (holding s a))
       \<and> isOptedInToAsset s (app_address env) x
       \<and> (\<forall>a y. y \<noteq> x \<or> (a \<noteq> app_address env \<and> a \<noteq> rcv) \<longrightarrow> fmlookup (holding s' a) y = fmlookup (holding s a) y)
       \<and> (rcv \<noteq> app_address env \<longrightarrow>
            assetBalance s' rcv x = assetBalance s rcv x + n
            \<and> assetBalance s' (app_address env) x + n = assetBalance s (app_address env) x)"
proof -
  let ?app = "app_address env"
  from r pos obtain h1 h2 where
    t: "takeOut (holding s) ?app x n = Some h1" and p: "putIn h1 rcv x n = Some h2"
    and s': "holding s' = h2"
    by (auto simp: sendAssetTransfer_def Let_def split: option.splits if_splits)
  from takeOut_Some[OF t pos] obtain b where
    b: "fmlookup (holding s ?app) x = Some b" "n \<le> b"
       "h1 = (holding s)(?app := fmupd x (b - n) (holding s ?app))" by blast
  from putIn_Some[OF p pos] obtain c where
    c: "fmlookup (h1 rcv) x = Some c" "h2 = h1(rcv := fmupd x (c + n) (h1 rcv))" by blast
  have d1: "\<And>a. fmdom (h1 a) = fmdom (holding s a)"
    using b by (auto simp: fmlookup_dom_iff)
  have d2: "\<And>a. fmdom (h2 a) = fmdom (h1 a)"
    using c by (auto simp: fmlookup_dom_iff)
  have bal: "rcv \<noteq> ?app \<Longrightarrow> assetBalance s' rcv x = assetBalance s rcv x + n
            \<and> assetBalance s' ?app x + n = assetBalance s ?app x"
    using b c s' by (auto simp: assetBalance_def)
  have oth: "\<And>a y. y \<noteq> x \<or> (a \<noteq> ?app \<and> a \<noteq> rcv) \<Longrightarrow> fmlookup (holding s' a) y = fmlookup (holding s a) y"
    using b c s' by auto
  from d1 d2 s' b bal oth show ?thesis
    by (simp add: isOptedInToAsset_def)
qed

text \<open>The opt-out transfer removes the holding of the application account and nothing else.\<close>

lemma sendAssetTransfer_close:
  assumes r: "sendAssetTransfer env s x (app_address env) 0 (Some (app_address env)) = Inr s'"
  shows "fmdom (holding s' (app_address env)) = fmdom (holding s (app_address env)) |-| {|x|}
       \<and> (\<forall>a. a \<noteq> app_address env \<longrightarrow> holding s' a = holding s a)"
proof -
  let ?app = "app_address env"
  from r obtain h0 h3 where
    a: "allocateHolding env (holding s) ?app x = Some h0"
    and c: "closeHolding h0 ?app x ?app = Some h3"
    and s': "holding s' = h3"
    by (auto simp: sendAssetTransfer_def Let_def takeOut_def putIn_def split: option.splits if_splits)
  from a have h0: "(\<forall>a. a \<noteq> ?app \<longrightarrow> h0 a = holding s a)
      \<and> (fmdom (h0 ?app) = fmdom (holding s ?app) \<or> fmdom (h0 ?app) = finsert x (fmdom (holding s ?app)))"
    by (auto simp: allocateHolding_def split: option.splits)
  from c have h3: "(\<forall>a. a \<noteq> ?app \<longrightarrow> h3 a = h0 a) \<and> fmdom (h3 ?app) = fmdom (h0 ?app) |-| {|x|}"
    by (auto simp: closeHolding_def takeOut_def putIn_def split: option.splits if_splits)
  from h0 h3 s' show ?thesis by auto
qed

lemma refund_effect:
  assumes r: "refundDropCreatorRemainingTokens env s d = Inr s1"
    and i: "fmlookup (allDrops s) d = Some info"
  shows "(fmdom (holding s1 (app_address env)) = fmdom (holding s (app_address env))
          \<or> fmdom (holding s1 (app_address env)) = fmdom (holding s (app_address env)) |-| {|Token (Config info)|})
       \<and> (\<exists>optOut. itxns s1 = itxns s
              @ (if 0 < AmountRemaining info
                 then [AssetXfer (Token (Config info)) (DropCreator info) (AmountRemaining info) None] else [])
              @ (if optOut then [AssetXfer (Token (Config info)) (app_address env) 0 (Some (app_address env))] else []))
       \<and> (DropCreator info \<noteq> app_address env \<longrightarrow>
            assetBalance s1 (DropCreator info) (Token (Config info))
              = assetBalance s (DropCreator info) (Token (Config info)) + AmountRemaining info)"
proof -
  let ?app = "app_address env" and ?t = "Token (Config info)" and ?c = "DropCreator info"
  let ?n = "AmountRemaining info"
  let ?P = "\<lambda>sa s1. (fmdom (holding s1 ?app) = fmdom (holding sa ?app)
          \<or> fmdom (holding s1 ?app) = fmdom (holding sa ?app) |-| {|?t|})
       \<and> (\<exists>optOut. itxns s1 = itxns sa @ (if optOut then [AssetXfer ?t ?app 0 (Some ?app)] else []))
       \<and> (?c \<noteq> ?app \<longrightarrow> assetBalance s1 ?c ?t = assetBalance sa ?c ?t)"
  have step2: "?P sa s1"
    if b: "(if assetBalance sa ?app ?t = 0
             then sendAssetTransfer env sa ?t ?app 0 (Some ?app) else Inr sa) = Inr s1" for sa
  proof (cases "assetBalance sa ?app ?t = 0")
    case True
    with b have c: "sendAssetTransfer env sa ?t ?app 0 (Some ?app) = Inr s1" by simp
    from sendAssetTransfer_Inr[OF c] have "itxns s1 = itxns sa @ [AssetXfer ?t ?app 0 (Some ?app)]"
      by auto
    then have "\<exists>optOut. itxns s1 = itxns sa @ (if optOut then [AssetXfer ?t ?app 0 (Some ?app)] else [])"
      by (intro exI[of _ True]) simp
    with sendAssetTransfer_close[OF c] show ?thesis by (simp add: assetBalance_def)
  next
    case False
    with b have "s1 = sa" by simp
    then have "\<exists>optOut. itxns s1 = itxns sa @ (if optOut then [AssetXfer ?t ?app 0 (Some ?app)] else [])"
      by (intro exI[of _ False]) simp
    with \<open>s1 = sa\<close> show ?thesis by simp
  qed
  show ?thesis
  proof (cases "0 < ?n")
    case True
    with r i obtain rm sa where
      a: "sendTokensFromDrop env s info ?c ?n = Inr (rm, sa)"
      and b: "(if assetBalance sa ?app ?t = 0
               then sendAssetTransfer env sa ?t ?app 0 (Some ?app) else Inr sa) = Inr s1"
      by (auto simp: refundDropCreatorRemainingTokens_def map_sum_snd_Inr split: sum.splits)
    from a obtain sx where x: "sendAssetTransfer env s ?t ?c ?n None = Inr sx"
      and hx: "holding sa = holding sx" "itxns sa = itxns sx"
      by (auto simp: sendTokensFromDrop_def Let_def split: sum.splits option.splits if_splits)
    from sendAssetTransfer_Inr[OF x] have ix: "itxns sx = itxns s @ [AssetXfer ?t ?c ?n None]" by auto
    from sendAssetTransfer_plain[OF x True] hx have
      pl: "fmdom (holding sa ?app) = fmdom (holding s ?app)"
          "?c \<noteq> ?app \<longrightarrow> assetBalance sa ?c ?t = assetBalance s ?c ?t + ?n"
      by (auto simp: assetBalance_def)
    from step2[OF b] pl ix hx True show ?thesis by auto
  next
    case False
    with r i have b: "(if assetBalance s ?app ?t = 0
               then sendAssetTransfer env s ?t ?app 0 (Some ?app) else Inr s) = Inr s1"
      by (auto simp: refundDropCreatorRemainingTokens_def split: sum.splits)
    from step2[OF b] False show ?thesis by auto
  qed
qed

lemma fcard_pos_member: "x |\<in>| D \<Longrightarrow> 0 < fcard D"
  by (cases "fcard D") auto

lemma fcard_drop_status:
  assumes "D' = D \<or> D' = D |-| {|x|}"
  shows "fcard D = fcard D' + (if x |\<in>| D \<and> x |\<notin>| D' then 1 else 0)"
proof (cases "x |\<in>| D")
  case True
  from assms show ?thesis
  proof
    assume "D' = D" with True show ?thesis by simp
  next
    assume d: "D' = D |-| {|x|}"
    with True fcard_pos_member[OF True] show ?thesis by simp
  qed
next
  case False
  then have "D |-| {|x|} = D" by auto
  with assms False show ?thesis by auto
qed

lemma fcard_fmdrop_present:
  "fmlookup m k = Some v \<Longrightarrow> fcard (fmdom m) = Suc (fcard (fmdom (fmdrop k m)))"
  using fcard_pos_member[of k "fmdom m"] by (simp add: fmdomI)

lemma cleanupDrop_effect:
  assumes r: "cleanupDrop env s d = Inr s'"
    and i: "fmlookup (allDrops s) d = Some info" and id: "DropId info = d"
    and ix: "fmlookup (dropForToken s) (Token (Config info)) = Some p"
  shows "(txn_sender env = DropCreator info \<or> isDropExpiredOrEmpty env info)
       \<and> allDrops s' = fmdrop d (allDrops s)
       \<and> dropForToken s' = fmdrop (Token (Config info)) (dropForToken s)
       \<and> lastDropId s' = lastDropId s \<and> claimedMap s' = claimedMap s
       \<and> (\<exists>optOut. itxns s' = itxns s
              @ (if 0 < AmountRemaining info
                 then [AssetXfer (Token (Config info)) (DropCreator info) (AmountRemaining info) None] else [])
              @ (if optOut then [AssetXfer (Token (Config info)) (app_address env) 0 (Some (app_address env))] else [])
              @ [Payment (DropCreator info)
                   (boxMbr (1 + len_TokenDropId + len_TokenDropInfo) + boxMbr (3 + len_AssetID + len_TokenDropId)
                    + (if isOptedInToAsset s (app_address env) (Token (Config info))
                          \<and> \<not> isOptedInToAsset s' (app_address env) (Token (Config info))
                       then assetOptInMinBalance env else 0))
                   ''refund from removing token drop''])
       \<and> (DropCreator info \<noteq> app_address env \<longrightarrow>
            assetBalance s' (DropCreator info) (Token (Config info))
              = assetBalance s (DropCreator info) (Token (Config info)) + AmountRemaining info)"
proof -
  let ?app = "app_address env" and ?t = "Token (Config info)" and ?c = "DropCreator info"
  from r i obtain s1 s2 where
    auth: "txn_sender env = ?c \<or> isDropExpiredOrEmpty env info"
    and rf: "refundDropCreatorRemainingTokens env s d = Inr s1"
    and m: "removeFromDrops s1 d = Inr s2"
    and le: "minBalance env s2 \<le> minBalance env s"
    and p: "s' = sendPayment s2 ?c (minBalance env s - minBalance env s2) ''refund from removing token drop''"
    by (auto simp: cleanupDrop_def Let_def split: sum.splits if_splits)
  from refund_Inr[OF rf i id] obtain h tx where
    s1: "s1 = s\<lparr>holding := h, itxns := itxns s @ tx,
            allDrops := (if 0 < AmountRemaining info
                         then fmupd d (info\<lparr>AmountRemaining := 0, NumClaims := NumClaims info + 1\<rparr>) (allDrops s)
                         else allDrops s)\<rparr>"
    by blast
  have s2: "s2 = s1\<lparr>dropForToken := fmdrop ?t (dropForToken s1), allDrops := fmdrop d (allDrops s1)\<rparr>"
    using m s1 i by (auto simp: removeFromDrops_def split: option.splits if_splits)
  have fr: "allDrops s' = fmdrop d (allDrops s)" "dropForToken s' = fmdrop ?t (dropForToken s)"
    "lastDropId s' = lastDropId s" "claimedMap s' = claimedMap s"
    "holding s' = holding s1" "holding s2 = holding s1"
    "itxns s' = itxns s1 @ [Payment ?c (minBalance env s - minBalance env s2) ''refund from removing token drop'']"
    using s1 s2 p by (auto simp: sendPayment_def fmdrop_fmupd_same)
  from refund_effect[OF rf i] obtain optOut where
    dom: "fmdom (holding s1 ?app) = fmdom (holding s ?app)
          \<or> fmdom (holding s1 ?app) = fmdom (holding s ?app) |-| {|?t|}"
    and tx: "itxns s1 = itxns s
              @ (if 0 < AmountRemaining info then [AssetXfer ?t ?c (AmountRemaining info) None] else [])
              @ (if optOut then [AssetXfer ?t ?app 0 (Some ?app)] else [])"
    and bal: "?c \<noteq> ?app \<longrightarrow> assetBalance s1 ?c ?t = assetBalance s ?c ?t + AmountRemaining info"
    by blast
  have c1: "fcard (fmdom (allDrops s)) = Suc (fcard (fmdom (allDrops s2)))"
    using fcard_fmdrop_present[OF i] s1 s2 by (auto simp: fmdrop_fmupd_same)
  have c2: "fcard (fmdom (dropForToken s)) = Suc (fcard (fmdom (dropForToken s2)))"
    using fcard_fmdrop_present[OF ix] s1 s2 by auto
  have c3: "claimedMap s2 = claimedMap s" using s1 s2 by auto
  have c4: "fcard (fmdom (holding s ?app)) = fcard (fmdom (holding s2 ?app))
              + (if isOptedInToAsset s ?app ?t \<and> \<not> isOptedInToAsset s' ?app ?t then 1 else 0)"
    using fcard_drop_status[OF dom] fr by (simp add: isOptedInToAsset_def fmlookup_dom_iff)
  have amt: "minBalance env s - minBalance env s2
        = boxMbr (1 + len_TokenDropId + len_TokenDropInfo) + boxMbr (3 + len_AssetID + len_TokenDropId)
          + (if isOptedInToAsset s ?app ?t \<and> \<not> isOptedInToAsset s' ?app ?t
             then assetOptInMinBalance env else 0)"
    unfolding minBalance_def c1 c2 c3 c4 by (simp add: algebra_simps)
  have "\<exists>optOut. itxns s' = itxns s
              @ (if 0 < AmountRemaining info then [AssetXfer ?t ?c (AmountRemaining info) None] else [])
              @ (if optOut then [AssetXfer ?t ?app 0 (Some ?app)] else [])
              @ [Payment ?c
                   (boxMbr (1 + len_TokenDropId + len_TokenDropInfo) + boxMbr (3 + len_AssetID + len_TokenDropId)
                    + (if isOptedInToAsset s ?app ?t \<and> \<not> isOptedInToAsset s' ?app ?t
                       then assetOptInMinBalance env else 0))
                   ''refund from removing token drop'']"
    using fr(7) tx amt by (intro exI[of _ optOut]) simp
  with auth fr bal show ?thesis by (simp add: assetBalance_def)
qed

lemma claimDrop_claimedMap:
  assumes "claimDrop env s pay d v = Inr s'"
  shows "fmlookup (claimedMap s) (d, txn_sender env) = None
       \<and> claimedMap s' = fmupd (d, txn_sender env) (txn_txID env) (claimedMap s)"
proof -
  from assms obtain info sx r where
    n: "fmlookup (claimedMap s) (d, txn_sender env) = None"
    and t: "sendTokensFromDrop env sx info (txn_sender env) (AmountPerClaim (Config info)) = Inr (r, s')"
    and c: "claimedMap sx = fmupd (d, txn_sender env) (txn_txID env) (claimedMap s)"
    by (auto simp: claimDrop_def Let_def sendPayment_def map_sum_snd_Inr
             split: option.splits sum.splits if_splits)
  from sendTokensFromDrop_Inr[OF t] c n show ?thesis by auto
qed

lemma getPerClaimerMbrCost_value: "getPerClaimerMbrCost = 31700"
  by (simp add: getPerClaimerMbrCost_def costForBoxStorage_def len_defs)

lemma fees_inv_frame:
  "fees_inv s \<Longrightarrow> creationFeeAmount s' = creationFeeAmount s
     \<Longrightarrow> perClaimFeeAmount s' = perClaimFeeAmount s \<Longrightarrow> fees_inv s'"
  by (simp add: fees_inv_def)

lemma fees_inv_dispatch:
  assumes f: "fees_inv s" and inv: "registry_inv s" and r: "dispatch env s c = Inr s'"
  shows "fees_inv s'"
proof (cases c)
  case UpdateApplication
  with r f show ?thesis by (auto simp: updateApplication_def split: if_splits)
next
  case (ChangeMaintainer a)
  with r f show ?thesis
    by (auto simp: changeMaintainer_def split: if_splits intro: fees_inv_frame)
next
  case (ChangeFees x y)
  with r show ?thesis
    by (auto simp: changeFees_def fees_inv_def split: if_splits)
next
  case (OptinAsset pay a)
  with r f show ?thesis
    by (auto simp: optinAsset_def sendPayment_def split: if_splits
             dest!: sendAssetTransfer_Inr intro: fees_inv_frame)
next
  case (CreateDrop pay atxn cfg)
  with r obtain i where c: "createDrop env s pay atxn cfg = Inr (i, s')"
    by (auto simp: map_sum_snd_Inr)
  from createDrop_Inr[OF c] obtain s1 where
    p: "createDrop_purge env s cfg = Inr s1"
    and i: "createDrop_install env s1 pay atxn cfg = Inr (i, s')"
    by auto
  have "fees_inv s1"
  proof (cases "fmlookup (dropForToken s) (Token cfg)")
    case None
    with p f show ?thesis by (simp add: createDrop_purge_def)
  next
    case (Some q)
    with inv obtain info where l: "fmlookup (allDrops s) q = Some info" "DropId info = q"
      unfolding registry_inv_def by blast
    with p Some have "cleanupDrop env s q = Inr s1"
      by (auto simp: createDrop_purge_def split: if_splits)
    from cleanupDrop_Inr[OF this l] f show ?thesis by (auto intro: fees_inv_frame)
  qed
  with createDrop_install_Inr[OF i] show ?thesis by (auto intro: fees_inv_frame)
next
  case (CancelDrop d)
  with r obtain info where l: "fmlookup (allDrops s) d = Some info" and c: "cleanupDrop env s d = Inr s'"
    by (auto simp: cancelDrop_def split: option.splits if_splits)
  from inv l have "DropId info = d" unfolding registry_inv_def by blast
  from cleanupDrop_Inr[OF c l this] f show ?thesis by (auto intro: fees_inv_frame)
next
  case (ClaimDrop pay d v)
  with r have c: "claimDrop env s pay d v = Inr s'" by simp
  then obtain info where l: "fmlookup (allDrops s) d = Some info"
    by (auto simp: claimDrop_def split: option.splits)
  from inv l have "DropId info = d" unfolding registry_inv_def by blast
  from claimDrop_Inr[OF c l this] f show ?thesis by (auto intro: fees_inv_frame)
next
  case (ClaimClaimerBoxCost d a rcv)
  with r f show ?thesis
    by (auto simp: claimClaimerBoxCost_def Let_def sendPayment_def split: option.splits if_splits
             intro: fees_inv_frame)
next
  case (CleanupDrop d)
  with r have c: "cleanupDrop env s d = Inr s'" by simp
  then obtain info where l: "fmlookup (allDrops s) d = Some info"
    by (auto simp: cleanupDrop_def split: option.splits)
  from inv l have "DropId info = d" unfolding registry_inv_def by blast
  from cleanupDrop_Inr[OF c l this] f show ?thesis by (auto intro: fees_inv_frame)
qed

lemma reachable_fees_inv: "reachable s \<Longrightarrow> fees_inv s"
proof (induction rule: reachable.induct)
  case (reachable_init h nfdRegistryId maintainer)
  show ?case by (simp add: fees_inv_def createApplication_def getPerClaimerMbrCost_value)
next
  case (reachable_call s env c s')
  from reachable_call.IH reachable_registry_inv[OF reachable_call.hyps(1)] reachable_call.hyps(2)
  show ?case by (rule fees_inv_dispatch)
next
  case (reachable_ledger s h)
  then show ?case by (auto intro: fees_inv_frame)
qed

lemma cleanupDrop_globals:
  assumes "cleanupDrop env s d = Inr s'"
  shows "creationFeeAmount s' = creationFeeAmount s \<and> maintainerAddress s' = maintainerAddress s
       \<and> perClaimFeeAmount s' = perClaimFeeAmount s \<and> lastDropId s' = lastDropId s"
proof -
  from assms obtain info s1 s2 where
    rf: "refundDropCreatorRemainingTokens env s d = Inr s1"
    and i: "fmlookup (allDrops s) d = Some info"
    and m: "removeFromDrops s1 d = Inr s2"
    and p: "s' = sendPayment s2 (DropCreator info) (minBalance env s - minBalance env s2) ''refund from removing token drop''"
    by (auto simp: cleanupDrop_def Let_def split: option.splits sum.splits if_splits)
  have g1: "creationFeeAmount s1 = creationFeeAmount s \<and> maintainerAddress s1 = maintainerAddress s
       \<and> perClaimFeeAmount s1 = perClaimFeeAmount s \<and> lastDropId s1 = lastDropId s"
    using rf i
    by (auto simp: refundDropCreatorRemainingTokens_def map_sum_snd_Inr split: sum.splits if_splits
             dest!: sendTokensFromDrop_Inr sendAssetTransfer_Inr)
  from m have "creationFeeAmount s2 = creationFeeAmount s1 \<and> maintainerAddress s2 = maintainerAddress s1
       \<and> perClaimFeeAmount s2 = perClaimFeeAmount s1 \<and> lastDropId s2 = lastDropId s1"
    by (auto simp: removeFromDrops_def split: option.splits)
  with g1 p show ?thesis by (simp add: sendPayment_def)
qed

lemma createDrop_purge_globals:
  assumes "createDrop_purge env s cfg = Inr s1"
  shows "creationFeeAmount s1 = creationFeeAmount s \<and> maintainerAddress s1 = maintainerAddress s
       \<and> perClaimFeeAmount s1 = perClaimFeeAmount s \<and> lastDropId s1 = lastDropId s"
  using assms
  by (auto simp: createDrop_purge_def split: option.splits if_splits dest: cleanupDrop_globals)

lemma createDrop_install_overpay:
  assumes "createDrop_install env s pay atxn cfg = Inr (i, s')"
  shows "createDrop_install env s (pay\<lparr>pay_amount := pay_amount pay + extra\<rparr>) atxn cfg
         = Inr (i, s'\<lparr>itxns := itxns s @
                   (if creationFeeAmount s + 80600 < pay_amount pay + extra
                    then [Payment (pay_sender pay) (pay_amount pay + extra - (creationFeeAmount s + 80600)) ''excess mbr refund'']
                    else []) @
                   [Payment (maintainerAddress s) (creationFeeAmount s div 2) ''TokenDrop fee'',
                    Payment (feeSink env) (creationFeeAmount s div 2) ''TokenDrop fee'']\<rparr>)"
proof -
  let ?s2 = "addNewDrop (s\<lparr>lastDropId := lastDropId s + 1\<rparr>) (lastDropId s + 1) (newDropInfo (lastDropId s + 1) atxn cfg)"
  from assms obtain c where c: "getDropCreateCost ?s2 = Inr c"
    by (auto simp: createDrop_install_def Let_def newDropInfo_def split: sum.splits if_splits)
  from getDropCreateCost_Inr[OF c] have c': "c = creationFeeAmount s + 80600"
    by (simp add: addNewDrop_def)
  from assms c show ?thesis unfolding c'
    by (auto simp: createDrop_install_def Let_def newDropInfo_def addNewDrop_def sendPayment_def
             split: sum.splits if_splits)
qed

lemma claimDrop_itxns:
  assumes "claimDrop env s pay d v = Inr s'"
  obtains info where "pay_amount pay = perClaimFeeAmount s"
    and "2 * getPerClaimerMbrCost \<le> perClaimFeeAmount s"
    and "fmlookup (allDrops s) d = Some info"
    and "itxns s' = itxns s @
                   [Payment (maintainerAddress s) (perClaimFeeAmount s * 500 div 1000) ''TokenDrop fee'',
                    Payment (feeSink env)
                      (perClaimFeeAmount s - perClaimFeeAmount s * 500 div 1000 - getPerClaimerMbrCost)
                      ''TokenDrop fee'',
                    AssetXfer (Token (Config info)) (txn_sender env) (AmountPerClaim (Config info)) None]"
proof -
  let ?F = "perClaimFeeAmount s"
  from assms obtain info sx r where
    i: "fmlookup (allDrops s) d = Some info"
    and f: "pay_amount pay = ?F" "getPerClaimerMbrCost * 2 \<le> ?F"
    and t: "sendTokensFromDrop env sx info (txn_sender env) (AmountPerClaim (Config info)) = Inr (r, s')"
    and x: "itxns sx = itxns s @
                   [Payment (maintainerAddress s) (?F * 500 div 1000) ''TokenDrop fee'',
                    Payment (feeSink env) (?F - ?F * 500 div 1000 - getPerClaimerMbrCost) ''TokenDrop fee'']"
    by (auto simp: claimDrop_def Let_def sendPayment_def getPerClaimerFee_def map_sum_snd_Inr
             split: option.splits sum.splits if_splits)
  from sendTokensFromDrop_Inr[OF t] x
  have y: "itxns s' = itxns s @
                   [Payment (maintainerAddress s) (?F * 500 div 1000) ''TokenDrop fee'',
                    Payment (feeSink env) (?F - ?F * 500 div 1000 - getPerClaimerMbrCost) ''TokenDrop fee'',
                    AssetXfer (Token (Config info)) (txn_sender env) (AmountPerClaim (Config info)) None]"
    by auto
  from f(2) have f2: "2 * getPerClaimerMbrCost \<le> ?F" by (simp add: mult.commute)
  show thesis by (rule that[OF f(1) f2 i y])
qed

lemma half_by_scaling: "(F::nat) * 500 div 1000 = F div 2"
proof -
  have "F * 500 div (500 * 2) = F * 500 div 500 div 2" by (rule div_mult2_eq)
  then show ?thesis by simp
qed

lemma split_arith:
  fixes F M :: nat
  assumes "2 * M \<le> F"
  shows "F * 500 div 1000 + (F - F * 500 div 1000 - M) + M = F"
    and "F - F * 500 div 1000 - M = (F div 2 - M) + F mod 2"
    and "F - (F * 500 div 1000 + (F - F * 500 div 1000 - M)) = M"
proof -
  note h = half_by_scaling[of F]
  from assms have m: "M \<le> F div 2" by linarith
  have d: "F div 2 \<le> F" by simp
  from m d show "F * 500 div 1000 + (F - F * 500 div 1000 - M) + M = F"
    unfolding h by linarith
  have "F = 2 * (F div 2) + F mod 2" by simp
  with m show "F - F * 500 div 1000 - M = (F div 2 - M) + F mod 2"
    unfolding h by linarith
  from m d show "F - (F * 500 div 1000 + (F - F * 500 div 1000 - M)) = M"
    unfolding h by linarith
qed

lemma claimDrop_feeRetained:
  assumes "claimDrop env s pay d v = Inr s'"
  shows "feeRetained s pay s' = getPerClaimerMbrCost"
proof -
  from assms obtain info where
    f: "pay_amount pay = perClaimFeeAmount s" "2 * getPerClaimerMbrCost \<le> perClaimFeeAmount s"
    and i: "fmlookup (allDrops s) d = Some info"
    and x: "itxns s' = itxns s @
                   [Payment (maintainerAddress s) (perClaimFeeAmount s * 500 div 1000) ''TokenDrop fee'',
                    Payment (feeSink env)
                      (perClaimFeeAmount s - perClaimFeeAmount s * 500 div 1000 - getPerClaimerMbrCost)
                      ''TokenDrop fee'',
                    AssetXfer (Token (Config info)) (txn_sender env) (AmountPerClaim (Config info)) None]"
    by (rule claimDrop_itxns)
  from x have "paidOut (drop (length (itxns s)) (itxns s'))
        = perClaimFeeAmount s * 500 div 1000
          + (perClaimFeeAmount s - perClaimFeeAmount s * 500 div 1000 - getPerClaimerMbrCost)"
    by simp
  with f(1) split_arith(3)[OF f(2)] show ?thesis
    by (simp add: feeRetained_def)
qed
















section \<open>The example, evaluated\<close>

lemma ex_checkGatingInfo: "checkGatingInfo env s ex_cfg = Inr ()"
  by (simp add: checkGatingInfo_def andThen_def assertion_def gating_type_defs ex_cfg_def)

lemma ex_createDrop: "createDrop ex_env ex_s0 ex_pay ex_atxn ex_cfg = Inr (1, ex_s1)"
  by (simp add: createDrop_def createDrop_purge_def createDrop_install_def ex_checkGatingInfo
        isOptedInToAsset_def overflows_def addNewDrop_def getDropCreateCost_def costForBoxStorage_def
        len_defs sendPayment_def createApplication_def Let_def
        ex_env_def ex_holding_def ex_s0_def ex_pay_def ex_atxn_def ex_info1_def ex_s1_def)
     (simp add: ex_cfg_def)

lemma ex_claimDrop: "claimDrop ex_envA ex_s1 ex_payA 1 0 = Inr ex_s2"
  apply (simp add: claimDrop_def doesClaimAccountMeetGating_def gating_type_defs isOptedInToAsset_def isDropExpiredOrEmpty_def overflows_def getPerClaimerFee_def getPerClaimerMbrCost_def
         costForBoxStorage_def len_defs sendPayment_def sendTokensFromDrop_def sendAssetTransfer_def takeOut_def putIn_def Let_def
        ex_envA_def ex_env_def ex_holding_def ex_payA_def ex_info1_def ex_s1_def ex_cfg_def ex_s2_def ex_info2_def ex_holding2_def)
  apply (auto simp: fun_eq_iff)
  done

lemma ex_reachable0: "reachable ex_s0"
  unfolding ex_s0_def by (rule reachable_init)

lemma ex_reachable1: "reachable ex_s1"
proof -
  have "dispatch ex_env ex_s0 (CreateDrop ex_pay ex_atxn ex_cfg) = Inr ex_s1"
    using ex_createDrop by simp
  with ex_reachable0 show ?thesis by (rule reachable_call)
qed

lemma ex_reachable2: "reachable ex_s2"
proof -
  have "dispatch ex_envA ex_s1 (ClaimDrop ex_payA 1 0) = Inr ex_s2"
    using ex_claimDrop by simp
  with ex_reachable1 show ?thesis by (rule reachable_call)
qed

lemmas eval_defs =
  isOptedInToAsset_def assetBalance_def isDropExpiredOrEmpty_def overflows_def
  getPerClaimerFee_def getPerClaimerMbrCost_def getDropCreateCost_def costForBoxStorage_def
  boxMbr_def minBalance_def len_defs sendPayment_def sendTokensFromDrop_def sendAssetTransfer_def
  takeOut_def putIn_def allocateHolding_def closeHolding_def addNewDrop_def removeFromDrops_def
  refundDropCreatorRemainingTokens_def cleanupDrop_def Let_def
  fcard_finsert_if fcard_fempty fmdrop_fmupd

lemma ex_cleanupDrop3: "cleanupDrop ex_envB ex_s3 1 = Inr ex_s3c"
  apply (simp add: eval_defs ex_s3_def ex_s2_def ex_envB_def ex_env_def ex_holding3_def ex_info2_def ex_cfg_def
     ex_s3c_def ex_holding4_def)
  apply (auto simp: fun_eq_iff)
  done

lemma ex_install4: "createDrop_install ex_envB ex_s3c ex_payB ex_atxnB ex_cfgB = Inr (2, ex_s4)"
  apply (simp add: createDrop_install_def checkGatingInfo_def andThen_def assertion_def gating_type_defs
       eval_defs ex_s3c_def ex_envB_def ex_env_def ex_payB_def ex_atxnB_def ex_cfgB_def ex_s4_def ex_infoB_def)
  apply (simp add: numeral_2_eq_2)
  done

lemma ex_createDrop4: "createDrop ex_envB ex_s3 ex_payB ex_atxnB ex_cfgB = Inr (2, ex_s4)"
proof -
  have p: "createDrop_purge ex_envB ex_s3 ex_cfgB = Inr ex_s3c"
    using ex_cleanupDrop3
    by (simp add: createDrop_purge_def ex_s3_def ex_s2_def ex_cfgB_def ex_info2_def ex_cfg_def
          isDropExpiredOrEmpty_def ex_envB_def)
  show ?thesis
    using ex_install4
    by (simp add: createDrop_def p)
       (simp add: ex_envB_def ex_env_def ex_atxnB_def ex_cfgB_def ex_s3_def ex_holding3_def
          isOptedInToAsset_def overflows_def)
qed

lemma ex_reachable3: "reachable ex_s3"
  unfolding ex_s3_def using ex_reachable2 by (rule reachable_ledger)

lemma ex_claimDrop_odd: "claimDrop ex_envA ex_s1_odd ex_payA_over 1 0 = Inr ex_s2_odd"
  apply (simp add: claimDrop_def doesClaimAccountMeetGating_def gating_type_defs isOptedInToAsset_def
         isDropExpiredOrEmpty_def overflows_def getPerClaimerFee_def getPerClaimerMbrCost_def
         costForBoxStorage_def len_defs sendPayment_def sendTokensFromDrop_def sendAssetTransfer_def takeOut_def putIn_def Let_def
        ex_envA_def ex_env_def ex_holding_def ex_payA_over_def ex_info1_def ex_s1_def ex_s1_odd_def ex_cfg_def ex_s2_odd_def ex_info2_def ex_holding2_def)
  apply (auto simp: fun_eq_iff)
  done






lemma ex_reachable2_noopt: "reachable ex_s2_noopt"
  unfolding ex_s2_noopt_def using ex_reachable2 by (rule reachable_ledger)

lemma ex_reachable4: "reachable ex_s4"
proof -
  have "dispatch ex_envB ex_s3 (CreateDrop ex_payB ex_atxnB ex_cfgB) = Inr ex_s4"
    using ex_createDrop4 by simp
  with ex_reachable3 show ?thesis by (rule reachable_call)
qed

section \<open>The claims\<close>

subsection \<open>C1\<close>

text \<open>
  C1. In every reachable state every stored drop record satisfies
  \<open>AmountRemaining = (MaxClaims - NumClaims) * AmountPerClaim\<close> (with
  \<open>NumClaims \<le> MaxClaims\<close>, so the subtraction is exact). A successful
  \<^verbatim>\<open>createDrop\<close> stores a record with \<open>MaxClaims = fundedAmount div amountPerClaim\<close>,
  \<open>NumClaims = 0\<close> and \<open>AmountRemaining = fundedAmount\<close>, the funded amount being a
  multiple of the non-zero amount per claim; a successful \<^verbatim>\<open>claimDrop\<close> lowers
  \<open>AmountRemaining\<close> by \<open>AmountPerClaim\<close> and raises \<open>NumClaims\<close> by one.
\<close>

theorem drop_accounting_invariant:
  assumes "reachable s"
  shows "(\<forall>d info. fmlookup (allDrops s) d = Some info \<longrightarrow>
            NumClaims info \<le> MaxClaims info
            \<and> AmountRemaining info = (MaxClaims info - NumClaims info) * AmountPerClaim (Config info))
       \<and> (\<forall>env pay atxn cfg i s'. createDrop env s pay atxn cfg = Inr (i, s') \<longrightarrow>
            assetAmount atxn mod AmountPerClaim cfg = 0 \<and> 0 < AmountPerClaim cfg
            \<and> fmlookup (allDrops s') i =
                Some \<lparr>DropId = i, DropCreator = axfer_sender atxn, AmountRemaining = assetAmount atxn,
                      MaxClaims = assetAmount atxn div AmountPerClaim cfg, NumClaims = 0, Config = cfg\<rparr>)
       \<and> (\<forall>env pay d v s'. claimDrop env s pay d v = Inr s' \<longrightarrow>
            (\<exists>info. fmlookup (allDrops s) d = Some info
               \<and> AmountPerClaim (Config info) \<le> AmountRemaining info
               \<and> fmlookup (allDrops s') d =
                   Some (info\<lparr>AmountRemaining := AmountRemaining info - AmountPerClaim (Config info),
                              NumClaims := NumClaims info + 1\<rparr>)))"
proof (intro conjI allI impI)
  from assms have inv: "registry_inv s" by (rule reachable_registry_inv)
  {
    fix d info assume "fmlookup (allDrops s) d = Some info"
    with inv have "drop_accounting info" unfolding registry_inv_def by blast
    then show "NumClaims info \<le> MaxClaims info"
      and "AmountRemaining info = (MaxClaims info - NumClaims info) * AmountPerClaim (Config info)"
      by (simp_all add: drop_accounting_def)
  }
  {
    fix env pay atxn cfg i s' assume c: "createDrop env s pay atxn cfg = Inr (i, s')"
    from createDrop_Inr[OF c] obtain s1 where
      f: "assetAmount atxn mod AmountPerClaim cfg = 0" "0 < AmountPerClaim cfg"
      and i: "createDrop_install env s1 pay atxn cfg = Inr (i, s')"
      by auto
    from f show "assetAmount atxn mod AmountPerClaim cfg = 0" "0 < AmountPerClaim cfg" .
    from createDrop_install_Inr[OF i]
    show "fmlookup (allDrops s') i =
                Some \<lparr>DropId = i, DropCreator = axfer_sender atxn, AmountRemaining = assetAmount atxn,
                      MaxClaims = assetAmount atxn div AmountPerClaim cfg, NumClaims = 0, Config = cfg\<rparr>"
      by (simp add: newDropInfo_def)
  }
  {
    fix env pay d v s' assume c: "claimDrop env s pay d v = Inr s'"
    then obtain info where i: "fmlookup (allDrops s) d = Some info"
      by (auto simp: claimDrop_def split: option.splits)
    with inv have "DropId info = d" unfolding registry_inv_def by blast
    from claimDrop_Inr[OF c i this] i
    show "\<exists>info. fmlookup (allDrops s) d = Some info
               \<and> AmountPerClaim (Config info) \<le> AmountRemaining info
               \<and> fmlookup (allDrops s') d =
                   Some (info\<lparr>AmountRemaining := AmountRemaining info - AmountPerClaim (Config info),
                              NumClaims := NumClaims info + 1\<rparr>)"
      by auto
  }
qed

theorem drop_accounting_invariant_witness:
  "reachable ex_s0 \<and> reachable ex_s1 \<and> reachable ex_s2
   \<and> createDrop ex_env ex_s0 ex_pay ex_atxn ex_cfg = Inr (1, ex_s1)
   \<and> (4000::nat) mod 1000 = 0
   \<and> fmlookup (allDrops ex_s1) 1 =
        Some \<lparr>DropId = 1, DropCreator = ''creator'', AmountRemaining = 4000,
              MaxClaims = 4, NumClaims = 0, Config = ex_cfg\<rparr>
   \<and> claimDrop ex_envA ex_s1 ex_payA 1 0 = Inr ex_s2
   \<and> fmlookup (allDrops ex_s2) 1 =
        Some \<lparr>DropId = 1, DropCreator = ''creator'', AmountRemaining = 3000,
              MaxClaims = 4, NumClaims = 1, Config = ex_cfg\<rparr>
   \<and> (3000::nat) = (4 - 1) * 1000"
proof -
  have c: "createDrop ex_env ex_s0 ex_pay ex_atxn ex_cfg = Inr (1, ex_s1)" by (rule ex_createDrop)
  have k: "claimDrop ex_envA ex_s1 ex_payA 1 0 = Inr ex_s2" by (rule ex_claimDrop)
  have l: "fmlookup (allDrops ex_s2) 1 = Some ex_info2" by (simp add: ex_s2_def)
  from drop_accounting_invariant[OF ex_reachable0] c
  have a: "assetAmount ex_atxn mod AmountPerClaim ex_cfg = 0
           \<and> fmlookup (allDrops ex_s1) 1 =
                Some \<lparr>DropId = 1, DropCreator = axfer_sender ex_atxn, AmountRemaining = assetAmount ex_atxn,
                      MaxClaims = assetAmount ex_atxn div AmountPerClaim ex_cfg, NumClaims = 0, Config = ex_cfg\<rparr>"
    by blast
  from drop_accounting_invariant[OF ex_reachable1] k
  have b: "\<exists>info. fmlookup (allDrops ex_s1) 1 = Some info
               \<and> fmlookup (allDrops ex_s2) 1 =
                   Some (info\<lparr>AmountRemaining := AmountRemaining info - AmountPerClaim (Config info),
                              NumClaims := NumClaims info + 1\<rparr>)"
    by blast
  from drop_accounting_invariant[OF ex_reachable2] l
  have e: "AmountRemaining ex_info2 = (MaxClaims ex_info2 - NumClaims ex_info2) * AmountPerClaim (Config ex_info2)"
    by blast
  from a b e c k ex_reachable0 ex_reachable1 ex_reachable2 show ?thesis
    by (simp add: ex_atxn_def ex_cfg_def ex_info2_def ex_s2_def)
qed

subsection \<open>C2\<close>

text \<open>
  C2. In every reachable state two stored drop records of one token are the same record
  and every entry of the token index points at a stored record of that token, so at most
  one drop is indexed per token. \<^verbatim>\<open>createDrop\<close> for a token whose indexed drop is
  neither expired nor empty fails and the state stays as it was. When the index has a drop
  for the token and \<^verbatim>\<open>createDrop\<close> succeeds, that drop was expired or empty and
  \<^verbatim>\<open>cleanupDrop\<close> ran on it first: its remaining tokens (when there are any) and the
  freed minimum balance went to its creator, its record and the index entry were removed,
  and only then the new drop was installed, under a larger identifier, in the index.
\<close>

theorem one_drop_per_token:
  assumes "reachable s"
  shows "(\<forall>d d' info info'. fmlookup (allDrops s) d = Some info \<and> fmlookup (allDrops s) d' = Some info'
            \<and> Token (Config info) = Token (Config info') \<longrightarrow> d = d')
       \<and> (\<forall>t p. fmlookup (dropForToken s) t = Some p \<longrightarrow>
            (\<exists>info. fmlookup (allDrops s) p = Some info \<and> Token (Config info) = t))
       \<and> (\<forall>env pay atxn cfg p info.
            fmlookup (dropForToken s) (Token cfg) = Some p \<and> fmlookup (allDrops s) p = Some info
            \<and> \<not> isDropExpiredOrEmpty env info \<longrightarrow>
              isl (createDrop env s pay atxn cfg)
              \<and> commit s (map_sum id snd (createDrop env s pay atxn cfg)) = s)
       \<and> (\<forall>env pay atxn cfg p i s'.
            fmlookup (dropForToken s) (Token cfg) = Some p \<and> createDrop env s pay atxn cfg = Inr (i, s') \<longrightarrow>
              (\<exists>info s1 optOut.
                 fmlookup (allDrops s) p = Some info \<and> Token (Config info) = Token cfg
                 \<and> isDropExpiredOrEmpty env info
                 \<and> cleanupDrop env s p = Inr s1
                 \<and> fmlookup (allDrops s1) p = None \<and> fmlookup (dropForToken s1) (Token cfg) = None
                 \<and> itxns s1 = itxns s
                      @ (if 0 < AmountRemaining info
                         then [AssetXfer (Token cfg) (DropCreator info) (AmountRemaining info) None] else [])
                      @ (if optOut then [AssetXfer (Token cfg) (app_address env) 0 (Some (app_address env))] else [])
                      @ [Payment (DropCreator info) (minBalance env s - minBalance env s1)
                           ''refund from removing token drop'']
                 \<and> createDrop_install env s1 pay atxn cfg = Inr (i, s')
                 \<and> fmlookup (dropForToken s') (Token cfg) = Some i \<and> p < i
                 \<and> fmlookup (allDrops s') p = None
                 \<and> (\<exists>tx. itxns s' = itxns s1 @ tx)))"
proof (intro conjI allI impI)
  from assms have inv: "registry_inv s" by (rule reachable_registry_inv)
  {
    fix d d' info info'
    assume a: "fmlookup (allDrops s) d = Some info \<and> fmlookup (allDrops s) d' = Some info'
            \<and> Token (Config info) = Token (Config info')"
    with inv have "fmlookup (dropForToken s) (Token (Config info)) = Some d"
      "fmlookup (dropForToken s) (Token (Config info')) = Some d'"
      unfolding registry_inv_def by blast+
    with a show "d = d'" by simp
  }
  {
    fix t p assume "fmlookup (dropForToken s) t = Some p"
    with inv show "\<exists>info. fmlookup (allDrops s) p = Some info \<and> Token (Config info) = t"
      unfolding registry_inv_def by blast
  }
  {
    fix env pay atxn and cfg :: TokenDropConfig and p info
    assume a: "fmlookup (dropForToken s) (Token cfg) = Some p \<and> fmlookup (allDrops s) p = Some info
            \<and> \<not> isDropExpiredOrEmpty env info"
    then have "isl (createDrop_purge env s cfg)" by (simp add: createDrop_purge_def)
    then show l: "isl (createDrop env s pay atxn cfg)"
      by (auto simp: createDrop_def split: sum.splits)
    then show "commit s (map_sum id snd (createDrop env s pay atxn cfg)) = s"
      by (cases "createDrop env s pay atxn cfg") (simp_all add: commit_def)
  }
  {
    fix env pay atxn and cfg :: TokenDropConfig and p i s'
    assume a: "fmlookup (dropForToken s) (Token cfg) = Some p \<and> createDrop env s pay atxn cfg = Inr (i, s')"
    from a inv obtain info where i: "fmlookup (allDrops s) p = Some info" "Token (Config info) = Token cfg"
      unfolding registry_inv_def by blast
    with inv have id: "DropId info = p" "p \<le> lastDropId s" unfolding registry_inv_def by blast+
    from a createDrop_Inr[of env s pay atxn cfg i s'] obtain s1 where
      pg: "createDrop_purge env s cfg = Inr s1"
      and ins: "createDrop_install env s1 pay atxn cfg = Inr (i, s')"
      by auto
    from pg a i have ex: "isDropExpiredOrEmpty env info" and cl: "cleanupDrop env s p = Inr s1"
      by (auto simp: createDrop_purge_def split: if_splits)
    from a i have ix: "fmlookup (dropForToken s) (Token (Config info)) = Some p" by simp
    from cl i obtain s2 where
      pay: "s1 = sendPayment s2 (DropCreator info) (minBalance env s - minBalance env s2)
                   ''refund from removing token drop''"
      by (auto simp: cleanupDrop_def Let_def split: sum.splits if_splits)
    then have mb: "minBalance env s1 = minBalance env s2"
      by (simp add: minBalance_def sendPayment_def)
    from cleanupDrop_effect[OF cl i(1) id(1) ix] obtain optOut where
      e: "allDrops s1 = fmdrop p (allDrops s)" "dropForToken s1 = fmdrop (Token (Config info)) (dropForToken s)"
         "lastDropId s1 = lastDropId s"
      and tx: "itxns s1 = itxns s
              @ (if 0 < AmountRemaining info
                 then [AssetXfer (Token (Config info)) (DropCreator info) (AmountRemaining info) None] else [])
              @ (if optOut then [AssetXfer (Token (Config info)) (app_address env) 0 (Some (app_address env))] else [])
              @ [Payment (DropCreator info)
                   (boxMbr (1 + len_TokenDropId + len_TokenDropInfo) + boxMbr (3 + len_AssetID + len_TokenDropId)
                    + (if isOptedInToAsset s (app_address env) (Token (Config info))
                          \<and> \<not> isOptedInToAsset s1 (app_address env) (Token (Config info))
                       then assetOptInMinBalance env else 0))
                   ''refund from removing token drop'']"
      by blast
    from pay have "last (itxns s1) = Payment (DropCreator info) (minBalance env s - minBalance env s2)
                   ''refund from removing token drop''"
      by (simp add: sendPayment_def)
    with tx mb have amt: "boxMbr (1 + len_TokenDropId + len_TokenDropInfo) + boxMbr (3 + len_AssetID + len_TokenDropId)
                    + (if isOptedInToAsset s (app_address env) (Token (Config info))
                          \<and> \<not> isOptedInToAsset s1 (app_address env) (Token (Config info))
                       then assetOptInMinBalance env else 0) = minBalance env s - minBalance env s1"
      by simp
    from createDrop_install_Inr[OF ins] e have
      f: "i = lastDropId s + 1"
         "allDrops s' = fmupd i (newDropInfo i atxn cfg) (allDrops s1)"
         "dropForToken s' = fmupd (Token cfg) i (dropForToken s1)"
         "\<exists>tx. itxns s' = itxns s1 @ tx"
      by auto
    from f id have lt: "p < i" by simp
    show "\<exists>info s1 optOut.
                 fmlookup (allDrops s) p = Some info \<and> Token (Config info) = Token cfg
                 \<and> isDropExpiredOrEmpty env info
                 \<and> cleanupDrop env s p = Inr s1
                 \<and> fmlookup (allDrops s1) p = None \<and> fmlookup (dropForToken s1) (Token cfg) = None
                 \<and> itxns s1 = itxns s
                      @ (if 0 < AmountRemaining info
                         then [AssetXfer (Token cfg) (DropCreator info) (AmountRemaining info) None] else [])
                      @ (if optOut then [AssetXfer (Token cfg) (app_address env) 0 (Some (app_address env))] else [])
                      @ [Payment (DropCreator info) (minBalance env s - minBalance env s1)
                           ''refund from removing token drop'']
                 \<and> createDrop_install env s1 pay atxn cfg = Inr (i, s')
                 \<and> fmlookup (dropForToken s') (Token cfg) = Some i \<and> p < i
                 \<and> fmlookup (allDrops s') p = None
                 \<and> (\<exists>tx. itxns s' = itxns s1 @ tx)"
      apply (rule exI[of _ info], rule exI[of _ s1], rule exI[of _ optOut])
      using i ex cl e tx amt ins f lt by simp
  }
qed

theorem one_drop_per_token_witness:
  "reachable ex_s1
   \<and> fmlookup (dropForToken ex_s1) (Token ex_cfg) = Some 1
   \<and> fmlookup (allDrops ex_s1) 1 = Some ex_info1
   \<and> \<not> isDropExpiredOrEmpty ex_env ex_info1
   \<and> isl (createDrop ex_env ex_s1 ex_pay ex_atxn ex_cfg)
   \<and> commit ex_s1 (map_sum id snd (createDrop ex_env ex_s1 ex_pay ex_atxn ex_cfg)) = ex_s1
   \<and> reachable ex_s3
   \<and> fmlookup (dropForToken ex_s3) (Token ex_cfgB) = Some 1
   \<and> createDrop ex_envB ex_s3 ex_payB ex_atxnB ex_cfgB = Inr (2, ex_s4)
   \<and> cleanupDrop ex_envB ex_s3 1 = Inr ex_s3c
   \<and> itxns ex_s3c = itxns ex_s3 @ [AssetXfer 7 ''creator'' 3000 None,
                                    Payment ''creator'' 80600 ''refund from removing token drop'']
   \<and> fmlookup (dropForToken ex_s4) 7 = Some 2
   \<and> fmlookup (allDrops ex_s4) 1 = None"
proof -
  have a1: "fmlookup (dropForToken ex_s1) (Token ex_cfg) = Some 1"
    and a2: "fmlookup (allDrops ex_s1) 1 = Some ex_info1"
    and a3: "\<not> isDropExpiredOrEmpty ex_env ex_info1"
    by (simp_all add: ex_s1_def ex_cfg_def ex_info1_def ex_env_def isDropExpiredOrEmpty_def)
  from one_drop_per_token[OF ex_reachable1] a1 a2 a3
  have b: "isl (createDrop ex_env ex_s1 ex_pay ex_atxn ex_cfg)
           \<and> commit ex_s1 (map_sum id snd (createDrop ex_env ex_s1 ex_pay ex_atxn ex_cfg)) = ex_s1"
    by blast
  have c1: "fmlookup (dropForToken ex_s3) (Token ex_cfgB) = Some 1"
    by (simp add: ex_s3_def ex_s2_def ex_cfgB_def)
  from one_drop_per_token[OF ex_reachable3] c1 ex_createDrop4
  have c: "fmlookup (dropForToken ex_s4) (Token ex_cfgB) = Some 2 \<and> fmlookup (allDrops ex_s4) 1 = None"
    by blast
  have d: "itxns ex_s3c = itxns ex_s3 @ [AssetXfer 7 ''creator'' 3000 None,
                                    Payment ''creator'' 80600 ''refund from removing token drop'']"
    by (simp add: ex_s3c_def ex_s3_def ex_s2_def)
  from a1 a2 a3 b c1 c d ex_reachable1 ex_reachable3 ex_createDrop4 ex_cleanupDrop3
  show ?thesis by (simp add: ex_cfgB_def)
qed

subsection \<open>C3\<close>

text \<open>
  C3 as stated fails: with a receipt on record, a later claim by the same address on a drop
  that has meanwhile expired is refused by the expiry check, which the source makes before
  it looks for the receipt.
\<close>

theorem exactly_once_claims_counterexample:
  "reachable ex_s2
   \<and> fmlookup (claimedMap ex_s2) (1, txn_sender ex_envA_late) = Some ''tx1''
   \<and> claimDrop ex_envA_late ex_s2 ex_payA 1 0 = Inl (AssertionFailed ''airdrop has ended or out of tokens'')
   \<and> claimDrop ex_envA_late ex_s2 ex_payA 1 0 \<noteq> Inl (AssertionFailed ''already claimed'')"
proof -
  have "claimDrop ex_envA_late ex_s2 ex_payA 1 0 = Inl (AssertionFailed ''airdrop has ended or out of tokens'')"
    by (simp add: claimDrop_def isDropExpiredOrEmpty_def ex_envA_late_def ex_envA_def ex_env_def
          ex_s2_def ex_info2_def ex_cfg_def)
  with ex_reachable2 show ?thesis
    by (simp add: ex_envA_late_def ex_envA_def ex_s2_def)
qed

text \<open>
  C3, amended. When a receipt exists for \<open>(d, a)\<close>, every \<^verbatim>\<open>claimDrop\<close> call by \<open>a\<close>
  on \<open>d\<close> fails, and the error is that of the first check of the source that fails, in
  the source's order: the read of the drop record when drop \<open>d\<close> is no longer stored,
  \<^verbatim>\<open>drop creator cannot claim\<close> when the caller created the drop,
  \<^verbatim>\<open>airdrop has ended or out of tokens\<close> when the drop has expired or is empty,
  \<^verbatim>\<open>claimant must already be opted-in to token!\<close> when the caller holds no opt-in to the
  token, and \<^verbatim>\<open>already claimed\<close> when all of these checks pass. A successful
  \<^verbatim>\<open>claimDrop\<close> found no receipt and records the receipt for \<open>(d, a)\<close>, holding the
  transaction id, in the state it returns.
\<close>

theorem exactly_once_claims:
  "(fmlookup (claimedMap s) (d, txn_sender env) \<noteq> None \<longrightarrow>
      isl (claimDrop env s pay d v)
      \<and> claimDrop env s pay d v =
          Inl (case fmlookup (allDrops s) d of
                 None \<Rightarrow> BoxNotFound
               | Some info \<Rightarrow>
                   if txn_sender env = DropCreator info
                     then AssertionFailed ''drop creator cannot claim''
                   else if isDropExpiredOrEmpty env info
                     then AssertionFailed ''airdrop has ended or out of tokens''
                   else if \<not> isOptedInToAsset s (txn_sender env) (Token (Config info))
                     then AssertionFailed ''claimant must already be opted-in to token!''
                   else AssertionFailed ''already claimed''))
   \<and> (\<forall>s'. claimDrop env s pay d v = Inr s' \<longrightarrow>
        fmlookup (claimedMap s) (d, txn_sender env) = None
        \<and> fmlookup (claimedMap s') (d, txn_sender env) = Some (txn_txID env))"
proof (intro conjI allI impI)
  assume a: "fmlookup (claimedMap s) (d, txn_sender env) \<noteq> None"
  then show e: "claimDrop env s pay d v =
          Inl (case fmlookup (allDrops s) d of
                 None \<Rightarrow> BoxNotFound
               | Some info \<Rightarrow>
                   if txn_sender env = DropCreator info
                     then AssertionFailed ''drop creator cannot claim''
                   else if isDropExpiredOrEmpty env info
                     then AssertionFailed ''airdrop has ended or out of tokens''
                   else if \<not> isOptedInToAsset s (txn_sender env) (Token (Config info))
                     then AssertionFailed ''claimant must already be opted-in to token!''
                   else AssertionFailed ''already claimed'')"
    by (simp add: claimDrop_def split: option.splits)
  then show "isl (claimDrop env s pay d v)" by simp
next
  fix s' assume "claimDrop env s pay d v = Inr s'"
  from claimDrop_claimedMap[OF this]
  show "fmlookup (claimedMap s) (d, txn_sender env) = None"
    and "fmlookup (claimedMap s') (d, txn_sender env) = Some (txn_txID env)"
    by simp_all
qed

theorem exactly_once_claims_witness:
  "reachable ex_s2 \<and> reachable ex_s2_noopt \<and> reachable ex_s4
   \<and> fmlookup (claimedMap ex_s2) (1, ''alice'') \<noteq> None
   \<and> fmlookup (claimedMap ex_s2_noopt) (1, ''alice'') \<noteq> None
   \<and> fmlookup (claimedMap ex_s4) (1, ''alice'') \<noteq> None
   \<and> claimDrop ex_envA ex_s2 ex_payA 1 0 = Inl (AssertionFailed ''already claimed'')
   \<and> claimDrop ex_envA ex_s2_noopt ex_payA 1 0
        = Inl (AssertionFailed ''claimant must already be opted-in to token!'')
   \<and> claimDrop ex_envA_late ex_s2 ex_payA 1 0
        = Inl (AssertionFailed ''airdrop has ended or out of tokens'')
   \<and> claimDrop ex_envA_late ex_s4 ex_payA 1 0 = Inl BoxNotFound
   \<and> claimDrop ex_envA ex_s1 ex_payA 1 0 = Inr ex_s2
   \<and> fmlookup (claimedMap ex_s1) (1, txn_sender ex_envA) = None
   \<and> fmlookup (claimedMap ex_s2) (1, txn_sender ex_envA) = Some (txn_txID ex_envA)"
proof -
  have r: "fmlookup (claimedMap ex_s2) (1, ''alice'') \<noteq> None"
    "fmlookup (claimedMap ex_s2_noopt) (1, ''alice'') \<noteq> None"
    "fmlookup (claimedMap ex_s4) (1, ''alice'') \<noteq> None"
    by (simp_all add: ex_s2_noopt_def ex_s2_def ex_s4_def)
  have n: "txn_sender ex_envA = ''alice''" "txn_sender ex_envA_late = ''alice''"
    by (simp_all add: ex_envA_late_def ex_envA_def)
  from exactly_once_claims[of ex_s2 1 ex_envA ex_payA 0] r n
  have a: "claimDrop ex_envA ex_s2 ex_payA 1 0 = Inl (AssertionFailed ''already claimed'')"
    by (simp add: ex_s2_def ex_envA_def ex_env_def ex_info2_def ex_cfg_def ex_holding2_def
          isDropExpiredOrEmpty_def isOptedInToAsset_def)
  from exactly_once_claims[of ex_s2_noopt 1 ex_envA ex_payA 0] r n
  have b: "claimDrop ex_envA ex_s2_noopt ex_payA 1 0
        = Inl (AssertionFailed ''claimant must already be opted-in to token!'')"
    by (simp add: ex_s2_noopt_def ex_s2_def ex_envA_def ex_env_def ex_info2_def ex_cfg_def
          ex_holding2_def isDropExpiredOrEmpty_def isOptedInToAsset_def)
  from exactly_once_claims[of ex_s2 1 ex_envA_late ex_payA 0] r n
  have c: "claimDrop ex_envA_late ex_s2 ex_payA 1 0
        = Inl (AssertionFailed ''airdrop has ended or out of tokens'')"
    by (simp add: ex_s2_def ex_envA_late_def ex_envA_def ex_env_def ex_info2_def ex_cfg_def
          isDropExpiredOrEmpty_def)
  from exactly_once_claims[of ex_s4 1 ex_envA_late ex_payA 0] r n
  have d: "claimDrop ex_envA_late ex_s4 ex_payA 1 0 = Inl BoxNotFound"
    by (simp add: ex_s4_def)
  from exactly_once_claims[of ex_s1 1 ex_envA ex_payA 0] ex_claimDrop
  have e: "fmlookup (claimedMap ex_s1) (1, txn_sender ex_envA) = None
        \<and> fmlookup (claimedMap ex_s2) (1, txn_sender ex_envA) = Some (txn_txID ex_envA)"
    by blast
  from r a b c d e ex_claimDrop ex_reachable2 ex_reachable2_noopt ex_reachable4
  show ?thesis by simp
qed

subsection \<open>C4\<close>

text \<open>
  C4. \<^verbatim>\<open>createDrop\<close> succeeds only if the configured end time is strictly more than
  86400 seconds after the latest block time and at most 3600 + 7 * 86400 seconds after it.
  An end time 6 hours out and an end time 8 days out both make it fail.
\<close>

theorem expiry_window:
  "(\<forall>i s'. createDrop env s pay atxn cfg = Inr (i, s') \<longrightarrow>
      latestTimestamp env + 86400 < AirdropEndTime cfg
      \<and> AirdropEndTime cfg \<le> latestTimestamp env + (3600 + 7 * 86400))
   \<and> (AirdropEndTime cfg = latestTimestamp env + 6 * 3600 \<longrightarrow> isl (createDrop env s pay atxn cfg))
   \<and> (AirdropEndTime cfg = latestTimestamp env + 8 * 86400 \<longrightarrow> isl (createDrop env s pay atxn cfg))"
proof (intro conjI allI impI)
  fix i s' assume c: "createDrop env s pay atxn cfg = Inr (i, s')"
  from createDrop_Inr[OF c]
  show "latestTimestamp env + 86400 < AirdropEndTime cfg"
    and "AirdropEndTime cfg \<le> latestTimestamp env + (3600 + 7 * 86400)"
    by simp_all
next
  assume "AirdropEndTime cfg = latestTimestamp env + 6 * 3600"
  then show "isl (createDrop env s pay atxn cfg)"
    by (simp add: createDrop_def)
next
  assume "AirdropEndTime cfg = latestTimestamp env + 8 * 86400"
  then show "isl (createDrop env s pay atxn cfg)"
    by (simp add: createDrop_def)
qed

theorem expiry_window_witness:
  "createDrop ex_env ex_s0 ex_pay ex_atxn ex_cfg = Inr (1, ex_s1)
   \<and> latestTimestamp ex_env + 86400 < AirdropEndTime ex_cfg
   \<and> AirdropEndTime ex_cfg \<le> latestTimestamp ex_env + (3600 + 7 * 86400)
   \<and> AirdropEndTime ex_cfg6h = latestTimestamp ex_env + 6 * 3600
   \<and> isl (createDrop ex_env ex_s0 ex_pay ex_atxn ex_cfg6h)
   \<and> AirdropEndTime ex_cfg8d = latestTimestamp ex_env + 8 * 86400
   \<and> isl (createDrop ex_env ex_s0 ex_pay ex_atxn ex_cfg8d)"
proof -
  have a: "AirdropEndTime ex_cfg6h = latestTimestamp ex_env + 6 * 3600"
    and b: "AirdropEndTime ex_cfg8d = latestTimestamp ex_env + 8 * 86400"
    by (simp_all add: ex_cfg6h_def ex_cfg8d_def ex_env_def)
  from expiry_window[of ex_env ex_s0 ex_pay ex_atxn ex_cfg] ex_createDrop
  have c: "latestTimestamp ex_env + 86400 < AirdropEndTime ex_cfg
      \<and> AirdropEndTime ex_cfg \<le> latestTimestamp ex_env + (3600 + 7 * 86400)"
    by blast
  from expiry_window[of ex_env ex_s0 ex_pay ex_atxn ex_cfg6h] a
  have d: "isl (createDrop ex_env ex_s0 ex_pay ex_atxn ex_cfg6h)" by blast
  from expiry_window[of ex_env ex_s0 ex_pay ex_atxn ex_cfg8d] b
  have e: "isl (createDrop ex_env ex_s0 ex_pay ex_atxn ex_cfg8d)" by blast
  from a b c d e ex_createDrop show ?thesis by simp
qed

subsection \<open>C5\<close>

text \<open>
  C5 as stated fails for two of the three operations: \<^verbatim>\<open>claimDrop\<close> and
  \<^verbatim>\<open>optinAsset\<close> verify the payment with an exact amount, so one microAlgo more than the
  per-claim fee, or than the asset opt-in minimum balance, makes a call fail that succeeds
  with the exact amount.
\<close>

theorem overpayment_counterexample:
  "claimDrop ex_envA ex_s1 ex_payA 1 0 = Inr ex_s2
   \<and> pay_amount ex_payA_over = pay_amount ex_payA + 1
   \<and> claimDrop ex_envA ex_s1 ex_payA_over 1 0 = Inl TxnVerifyFailed
   \<and> optinAsset ex_env ex_s0 ex_payOpt 7 = Inr (sendPayment ex_s0 ''creator'' 100000 ''optin refund'')
   \<and> pay_amount ex_payOpt_over = pay_amount ex_payOpt + 1
   \<and> optinAsset ex_env ex_s0 ex_payOpt_over 7 = Inl TxnVerifyFailed"
proof -
  have a: "claimDrop ex_envA ex_s1 ex_payA_over 1 0 = Inl TxnVerifyFailed"
    by (simp add: claimDrop_def doesClaimAccountMeetGating_def gating_type_defs isOptedInToAsset_def
        isDropExpiredOrEmpty_def overflows_def getPerClaimerFee_def getPerClaimerMbrCost_value
        ex_payA_over_def ex_envA_def ex_env_def ex_s1_def ex_info1_def ex_cfg_def ex_holding_def)
  have b: "optinAsset ex_env ex_s0 ex_payOpt 7 = Inr (sendPayment ex_s0 ''creator'' 100000 ''optin refund'')"
    by (simp add: optinAsset_def isOptedInToAsset_def ex_env_def ex_s0_def createApplication_def
          ex_holding_def ex_payOpt_def)
  have c: "optinAsset ex_env ex_s0 ex_payOpt_over 7 = Inl TxnVerifyFailed"
    by (simp add: optinAsset_def ex_env_def ex_payOpt_over_def)
  from a b c ex_claimDrop show ?thesis
    by (simp add: ex_payA_over_def ex_payA_def ex_payOpt_over_def ex_payOpt_def)
qed

text \<open>
  C5, amended. Overpayment is accepted by \<^verbatim>\<open>createDrop\<close> only: when it succeeds the
  payment covers the creation fee plus the rent of the two registry boxes (80600), the same
  call with any larger payment succeeds as well, with the same drop identifier, and the
  whole excess over the required amount is paid back to the payer. \<^verbatim>\<open>claimDrop\<close>
  succeeds only with a payment of exactly the per-claim fee and \<^verbatim>\<open>optinAsset\<close> only
  with a payment of exactly the asset opt-in minimum balance; a larger payment makes either
  of them fail.
\<close>

theorem overpayment:
  "(\<forall>i s'. createDrop env s pay atxn cfg = Inr (i, s') \<longrightarrow>
      creationFeeAmount s + 80600 \<le> pay_amount pay
      \<and> (\<forall>extra. \<exists>t.
            createDrop env s (pay\<lparr>pay_amount := pay_amount pay + extra\<rparr>) atxn cfg = Inr (i, t)
            \<and> (0 < extra \<longrightarrow>
                 Payment (pay_sender pay) (pay_amount pay + extra - (creationFeeAmount s + 80600))
                   ''excess mbr refund'' \<in> set (itxns t))))
   \<and> (\<forall>s'. claimDrop env s pay d v = Inr s' \<longrightarrow> pay_amount pay = perClaimFeeAmount s)
   \<and> (perClaimFeeAmount s < pay_amount pay \<longrightarrow> isl (claimDrop env s pay d v))
   \<and> (\<forall>s'. optinAsset env s pay a = Inr s' \<longrightarrow> pay_amount pay = assetOptInMinBalance env)
   \<and> (assetOptInMinBalance env < pay_amount pay \<longrightarrow> isl (optinAsset env s pay a))"
proof (intro conjI allI impI)
  fix i s' assume c: "createDrop env s pay atxn cfg = Inr (i, s')"
  from createDrop_Inr[OF c] obtain s1 where
    p: "createDrop_purge env s cfg = Inr s1"
    and ins: "createDrop_install env s1 pay atxn cfg = Inr (i, s')"
    by auto
  from createDrop_purge_globals[OF p] have g: "creationFeeAmount s1 = creationFeeAmount s" by simp
  from createDrop_install_Inr[OF ins] g
  show "creationFeeAmount s + 80600 \<le> pay_amount pay" by simp
  fix extra
  let ?pay = "pay\<lparr>pay_amount := pay_amount pay + extra\<rparr>"
  let ?t = "s'\<lparr>itxns := itxns s1 @
                   (if creationFeeAmount s1 + 80600 < pay_amount pay + extra
                    then [Payment (pay_sender pay) (pay_amount pay + extra - (creationFeeAmount s1 + 80600)) ''excess mbr refund'']
                    else []) @
                   [Payment (maintainerAddress s1) (creationFeeAmount s1 div 2) ''TokenDrop fee'',
                    Payment (feeSink env) (creationFeeAmount s1 div 2) ''TokenDrop fee'']\<rparr>"
  have "createDrop env s ?pay atxn cfg = createDrop_install env s1 ?pay atxn cfg"
    using c p by (auto simp: createDrop_def split: if_splits)
  with createDrop_install_overpay[OF ins, of extra]
  have r: "createDrop env s ?pay atxn cfg = Inr (i, ?t)" by simp
  from createDrop_install_Inr[OF ins] g
  have "0 < extra \<longrightarrow>
                 Payment (pay_sender pay) (pay_amount pay + extra - (creationFeeAmount s + 80600))
                   ''excess mbr refund'' \<in> set (itxns ?t)"
    by simp
  with r show "\<exists>t. createDrop env s ?pay atxn cfg = Inr (i, t)
            \<and> (0 < extra \<longrightarrow>
                 Payment (pay_sender pay) (pay_amount pay + extra - (creationFeeAmount s + 80600))
                   ''excess mbr refund'' \<in> set (itxns t))"
    by blast
next
  fix s' assume "claimDrop env s pay d v = Inr s'"
  then show "pay_amount pay = perClaimFeeAmount s"
    by (auto simp: claimDrop_def Let_def getPerClaimerFee_def split: option.splits sum.splits if_splits)
next
  assume "perClaimFeeAmount s < pay_amount pay"
  then show "isl (claimDrop env s pay d v)"
    by (auto simp: claimDrop_def Let_def getPerClaimerFee_def split: option.splits sum.splits)
next
  fix s' assume "optinAsset env s pay a = Inr s'"
  then show "pay_amount pay = assetOptInMinBalance env"
    by (auto simp: optinAsset_def split: if_splits)
next
  assume "assetOptInMinBalance env < pay_amount pay"
  then show "isl (optinAsset env s pay a)"
    by (simp add: optinAsset_def)
qed

theorem overpayment_witness:
  "createDrop ex_env ex_s0 ex_pay ex_atxn ex_cfg = Inr (1, ex_s1)
   \<and> creationFeeAmount ex_s0 + 80600 \<le> pay_amount ex_pay
   \<and> (\<exists>t. createDrop ex_env ex_s0 (ex_pay\<lparr>pay_amount := pay_amount ex_pay + 5\<rparr>) ex_atxn ex_cfg = Inr (1, t)
          \<and> Payment ''creator'' 5 ''excess mbr refund'' \<in> set (itxns t))
   \<and> claimDrop ex_envA ex_s1 ex_payA 1 0 = Inr ex_s2
   \<and> pay_amount ex_payA = perClaimFeeAmount ex_s1
   \<and> perClaimFeeAmount ex_s1 < pay_amount ex_payA_over
   \<and> isl (claimDrop ex_envA ex_s1 ex_payA_over 1 0)
   \<and> optinAsset ex_env ex_s0 ex_payOpt 7 = Inr (sendPayment ex_s0 ''creator'' 100000 ''optin refund'')
   \<and> pay_amount ex_payOpt = assetOptInMinBalance ex_env
   \<and> assetOptInMinBalance ex_env < pay_amount ex_payOpt_over
   \<and> isl (optinAsset ex_env ex_s0 ex_payOpt_over 7)"
proof -
  from overpayment[of ex_env ex_s0 ex_pay ex_atxn ex_cfg] ex_createDrop
  have a: "creationFeeAmount ex_s0 + 80600 \<le> pay_amount ex_pay
      \<and> (\<exists>t. createDrop ex_env ex_s0 (ex_pay\<lparr>pay_amount := pay_amount ex_pay + 5\<rparr>) ex_atxn ex_cfg = Inr (1, t)
            \<and> (0 < (5::nat) \<longrightarrow>
                 Payment (pay_sender ex_pay) (pay_amount ex_pay + 5 - (creationFeeAmount ex_s0 + 80600))
                   ''excess mbr refund'' \<in> set (itxns t)))"
    by blast
  from overpayment[of ex_envA ex_s1 ex_payA _ _ 1 0] ex_claimDrop
  have b: "pay_amount ex_payA = perClaimFeeAmount ex_s1" by blast
  have c0: "perClaimFeeAmount ex_s1 < pay_amount ex_payA_over"
    by (simp add: ex_s1_def ex_payA_over_def)
  from overpayment[of ex_envA ex_s1 ex_payA_over _ _ 1 0] c0
  have c: "isl (claimDrop ex_envA ex_s1 ex_payA_over 1 0)" by blast
  have d0: "optinAsset ex_env ex_s0 ex_payOpt 7 = Inr (sendPayment ex_s0 ''creator'' 100000 ''optin refund'')"
    by (simp add: optinAsset_def isOptedInToAsset_def ex_env_def ex_s0_def createApplication_def
          ex_holding_def ex_payOpt_def)
  from overpayment[of ex_env ex_s0 ex_payOpt _ _ _ _ 7] d0
  have d: "pay_amount ex_payOpt = assetOptInMinBalance ex_env" by blast
  have e0: "assetOptInMinBalance ex_env < pay_amount ex_payOpt_over"
    by (simp add: ex_env_def ex_payOpt_over_def)
  from overpayment[of ex_env ex_s0 ex_payOpt_over _ _ _ _ 7] e0
  have e: "isl (optinAsset ex_env ex_s0 ex_payOpt_over 7)" by blast
  from a b c0 c d0 d e0 e ex_createDrop ex_claimDrop show ?thesis
    by (simp add: ex_pay_def ex_s0_def createApplication_def)
qed

subsection \<open>C6\<close>



subsection \<open>C7\<close>




subsection \<open>C8\<close>

text \<open>
  C8 as stated fails in its last part: rounding the maintainer portion down leaves nothing
  in the contract beyond the rent. With the odd per-claim fee 100001 the maintainer gets
  50000, the fee sink gets 18301, one more than half the fee less the rent, and
  the contract keeps exactly the rent, 31700; and no successful claim keeps anything else.
\<close>

theorem fee_split_counterexample:
  "claimDrop ex_envA ex_s1_odd ex_payA_over 1 0 = Inr ex_s2_odd
   \<and> perClaimFeeAmount ex_s1_odd = 100001 \<and> getPerClaimerMbrCost = 31700
   \<and> drop (length (itxns ex_s1_odd)) (itxns ex_s2_odd)
        = [Payment ''maint'' 50000 ''TokenDrop fee'', Payment ''sink'' 18301 ''TokenDrop fee'',
           AssetXfer 7 ''alice'' 1000 None]
   \<and> feeRetained ex_s1_odd ex_payA_over ex_s2_odd = 31700
   \<and> \<not> (\<exists>env s pay d v s'. claimDrop env s pay d v = Inr s'
           \<and> feeRetained s pay s' \<noteq> getPerClaimerMbrCost)"
proof -
  have "\<not> (\<exists>env s pay d v s'. claimDrop env s pay d v = Inr s'
           \<and> feeRetained s pay s' \<noteq> getPerClaimerMbrCost)"
    using claimDrop_feeRetained by blast
  with ex_claimDrop_odd show ?thesis
    by (simp add: ex_s1_odd_def ex_s1_def ex_s2_odd_def getPerClaimerMbrCost_value feeRetained_def
          ex_payA_over_def)
qed

text \<open>
  C8, amended. On every successful \<^verbatim>\<open>claimDrop\<close> with per-claim fee \<open>F\<close> and
  per-receipt rent \<open>M\<close> the payment is \<open>F\<close>, the maintainer is paid
  \<open>F * 500 div 1000\<close>, which is \<open>F div 2\<close>, the fee sink is paid
  \<open>F - F * 500 div 1000 - M\<close>, and these two payments are the only ones made, so the
  contract keeps exactly \<open>M\<close> of the fee; the three portions sum to \<open>F\<close>. The unit
  lost by rounding the maintainer portion down goes to the fee sink, which receives
  \<open>F div 2 - M\<close> plus \<open>F mod 2\<close>; nothing beyond \<open>M\<close> stays in the contract.
\<close>

theorem fee_split:
  "\<forall>s'. claimDrop env s pay d v = Inr s' \<longrightarrow>
     pay_amount pay = perClaimFeeAmount s
     \<and> 2 * getPerClaimerMbrCost \<le> perClaimFeeAmount s
     \<and> (\<exists>xfer. itxns s' = itxns s @
           [Payment (maintainerAddress s) (perClaimFeeAmount s * 500 div 1000) ''TokenDrop fee'',
            Payment (feeSink env)
              (perClaimFeeAmount s - perClaimFeeAmount s * 500 div 1000 - getPerClaimerMbrCost)
              ''TokenDrop fee'',
            xfer]
           \<and> paidOut [xfer] = 0)
     \<and> perClaimFeeAmount s * 500 div 1000 = perClaimFeeAmount s div 2
     \<and> perClaimFeeAmount s * 500 div 1000
         + (perClaimFeeAmount s - perClaimFeeAmount s * 500 div 1000 - getPerClaimerMbrCost)
         + getPerClaimerMbrCost = perClaimFeeAmount s
     \<and> perClaimFeeAmount s - perClaimFeeAmount s * 500 div 1000 - getPerClaimerMbrCost
         = (perClaimFeeAmount s div 2 - getPerClaimerMbrCost) + perClaimFeeAmount s mod 2
     \<and> feeRetained s pay s' = getPerClaimerMbrCost"
proof (intro allI impI)
  fix s' assume c: "claimDrop env s pay d v = Inr s'"
  from c obtain info where
    f: "pay_amount pay = perClaimFeeAmount s" "2 * getPerClaimerMbrCost \<le> perClaimFeeAmount s"
    and i: "fmlookup (allDrops s) d = Some info"
    and x: "itxns s' = itxns s @
                   [Payment (maintainerAddress s) (perClaimFeeAmount s * 500 div 1000) ''TokenDrop fee'',
                    Payment (feeSink env)
                      (perClaimFeeAmount s - perClaimFeeAmount s * 500 div 1000 - getPerClaimerMbrCost)
                      ''TokenDrop fee'',
                    AssetXfer (Token (Config info)) (txn_sender env) (AmountPerClaim (Config info)) None]"
    by (rule claimDrop_itxns)
  from x have e: "\<exists>xfer. itxns s' = itxns s @
           [Payment (maintainerAddress s) (perClaimFeeAmount s * 500 div 1000) ''TokenDrop fee'',
            Payment (feeSink env)
              (perClaimFeeAmount s - perClaimFeeAmount s * 500 div 1000 - getPerClaimerMbrCost)
              ''TokenDrop fee'',
            xfer]
           \<and> paidOut [xfer] = 0"
    by (intro exI[of _ "AssetXfer (Token (Config info)) (txn_sender env) (AmountPerClaim (Config info)) None"]) simp
  from f e half_by_scaling[of "perClaimFeeAmount s"] split_arith(1,2)[OF f(2)]
       claimDrop_feeRetained[OF c]
  show "pay_amount pay = perClaimFeeAmount s
     \<and> 2 * getPerClaimerMbrCost \<le> perClaimFeeAmount s
     \<and> (\<exists>xfer. itxns s' = itxns s @
           [Payment (maintainerAddress s) (perClaimFeeAmount s * 500 div 1000) ''TokenDrop fee'',
            Payment (feeSink env)
              (perClaimFeeAmount s - perClaimFeeAmount s * 500 div 1000 - getPerClaimerMbrCost)
              ''TokenDrop fee'',
            xfer]
           \<and> paidOut [xfer] = 0)
     \<and> perClaimFeeAmount s * 500 div 1000 = perClaimFeeAmount s div 2
     \<and> perClaimFeeAmount s * 500 div 1000
         + (perClaimFeeAmount s - perClaimFeeAmount s * 500 div 1000 - getPerClaimerMbrCost)
         + getPerClaimerMbrCost = perClaimFeeAmount s
     \<and> perClaimFeeAmount s - perClaimFeeAmount s * 500 div 1000 - getPerClaimerMbrCost
         = (perClaimFeeAmount s div 2 - getPerClaimerMbrCost) + perClaimFeeAmount s mod 2
     \<and> feeRetained s pay s' = getPerClaimerMbrCost"
    by (intro conjI)
qed

theorem fee_split_witness:
  "claimDrop ex_envA ex_s1 ex_payA 1 0 = Inr ex_s2
   \<and> pay_amount ex_payA = 100000 \<and> perClaimFeeAmount ex_s1 = 100000 \<and> getPerClaimerMbrCost = 31700
   \<and> itxns ex_s2 = itxns ex_s1 @
        [Payment ''maint'' 50000 ''TokenDrop fee'', Payment ''sink'' 18300 ''TokenDrop fee'',
         AssetXfer 7 ''alice'' 1000 None]
   \<and> (50000::nat) + 18300 + 31700 = 100000
   \<and> feeRetained ex_s1 ex_payA ex_s2 = 31700"
proof -
  from fee_split[of ex_envA ex_s1 ex_payA 1 0] ex_claimDrop
  have "pay_amount ex_payA = perClaimFeeAmount ex_s1
      \<and> feeRetained ex_s1 ex_payA ex_s2 = getPerClaimerMbrCost"
    by blast
  with ex_claimDrop show ?thesis
    by (simp add: getPerClaimerMbrCost_value ex_s1_def ex_s2_def)
qed

subsection \<open>C9\<close>

text \<open>
  C9. For an existing drop that is expired or empty and an address without a claim receipt
  for it, \<^verbatim>\<open>claimClaimerBoxCost\<close> succeeds: the returned state is the given one with a
  single payment of 0 to the receiver added, so nothing was deleted and no other transfer
  was made.
\<close>

theorem claimClaimerBoxCost_without_receipt:
  "fmlookup (allDrops s) d = Some info \<and> isDropExpiredOrEmpty env info
   \<and> fmlookup (claimedMap s) (d, claimerAddress) = None \<longrightarrow>
     claimClaimerBoxCost env s d claimerAddress receiver
       = Inr (s\<lparr>itxns := itxns s @ [Payment receiver 0 []]\<rparr>)"
proof
  assume a: "fmlookup (allDrops s) d = Some info \<and> isDropExpiredOrEmpty env info
   \<and> fmlookup (claimedMap s) (d, claimerAddress) = None"
  then have "fmdrop (d, claimerAddress) (claimedMap s) = claimedMap s"
    by (simp add: fmdrop_idle fmdom_notI)
  with a show "claimClaimerBoxCost env s d claimerAddress receiver
       = Inr (s\<lparr>itxns := itxns s @ [Payment receiver 0 []]\<rparr>)"
    by (simp add: claimClaimerBoxCost_def Let_def sendPayment_def)
qed

theorem claimClaimerBoxCost_without_receipt_witness:
  "fmlookup (allDrops ex_s2) 1 = Some ex_info2 \<and> isDropExpiredOrEmpty ex_envA_late ex_info2
   \<and> fmlookup (claimedMap ex_s2) (1, ''bob'') = None
   \<and> claimClaimerBoxCost ex_envA_late ex_s2 1 ''bob'' ''carol''
       = Inr (ex_s2\<lparr>itxns := itxns ex_s2 @ [Payment ''carol'' 0 []]\<rparr>)"
proof -
  have a: "fmlookup (allDrops ex_s2) 1 = Some ex_info2 \<and> isDropExpiredOrEmpty ex_envA_late ex_info2
   \<and> fmlookup (claimedMap ex_s2) (1, ''bob'') = None"
    by (simp add: ex_s2_def ex_info2_def ex_cfg_def ex_envA_late_def isDropExpiredOrEmpty_def)
  with claimClaimerBoxCost_without_receipt[of ex_s2 1 ex_info2 ex_envA_late "''bob''" "''carol''"]
  show ?thesis by blast
qed

subsection \<open>C10\<close>

text \<open>
  C10. \<^verbatim>\<open>changeFees\<close> succeeds only with a creation fee strictly above 2,000,000
  microAlgo that is even, and refuses, for the application's creator, a fee of at most
  2,000,000 and an odd fee with the two errors of the source. In every reachable state the
  stored creation fee is therefore even, and a successful \<^verbatim>\<open>createDrop\<close> ends with the two
  payments of half the creation fee, to the maintainer and to the fee sink, whose sum is
  the whole fee.
\<close>

theorem changeFees_creation_fee:
  "(\<forall>s'. changeFees env s creationFee perClaimFee = Inr s' \<longrightarrow>
      2000000 < creationFee \<and> even creationFee \<and> creationFeeAmount s' = creationFee)
   \<and> (txn_sender env = app_creator env \<and> creationFee \<le> 2000000 \<longrightarrow>
        changeFees env s creationFee perClaimFee = Inl (AssertionFailed ''fee must be at least 2 algo''))
   \<and> (txn_sender env = app_creator env \<and> 2000000 < creationFee \<and> odd creationFee \<longrightarrow>
        changeFees env s creationFee perClaimFee = Inl (AssertionFailed ''fee must be even amount''))
   \<and> (reachable s \<longrightarrow>
        even (creationFeeAmount s)
        \<and> creationFeeAmount s div 2 + creationFeeAmount s div 2 = creationFeeAmount s
        \<and> (\<forall>pay atxn cfg i s'. createDrop env s pay atxn cfg = Inr (i, s') \<longrightarrow>
              (\<exists>tx. itxns s' = tx @
                 [Payment (maintainerAddress s) (creationFeeAmount s div 2) ''TokenDrop fee'',
                  Payment (feeSink env) (creationFeeAmount s div 2) ''TokenDrop fee''])))"
proof (intro conjI allI impI)
  fix s' assume "changeFees env s creationFee perClaimFee = Inr s'"
  then show "2000000 < creationFee" "even creationFee" "creationFeeAmount s' = creationFee"
    by (auto simp: changeFees_def split: if_splits)
next
  assume "txn_sender env = app_creator env \<and> creationFee \<le> 2000000"
  then show "changeFees env s creationFee perClaimFee = Inl (AssertionFailed ''fee must be at least 2 algo'')"
    by (simp add: changeFees_def)
next
  assume "txn_sender env = app_creator env \<and> 2000000 < creationFee \<and> odd creationFee"
  then show "changeFees env s creationFee perClaimFee = Inl (AssertionFailed ''fee must be even amount'')"
    by (simp add: changeFees_def odd_iff_mod_2_eq_one)
next
  assume r: "reachable s"
  from reachable_fees_inv[OF r] show e: "even (creationFeeAmount s)"
    by (simp add: fees_inv_def even_iff_mod_2_eq_zero)
  then show "creationFeeAmount s div 2 + creationFeeAmount s div 2 = creationFeeAmount s"
    by (auto elim: evenE)
next
  fix pay atxn cfg i s'
  assume r: "reachable s" and c: "createDrop env s pay atxn cfg = Inr (i, s')"
  from reachable_registry_inv[OF r] have inv: "registry_inv s" .
  from createDrop_Inr[OF c] obtain s1 where
    p: "createDrop_purge env s cfg = Inr s1"
    and i: "createDrop_install env s1 pay atxn cfg = Inr (i, s')"
    by auto
  have g: "maintainerAddress s1 = maintainerAddress s \<and> creationFeeAmount s1 = creationFeeAmount s"
  proof (cases "fmlookup (dropForToken s) (Token cfg)")
    case None
    with p show ?thesis by (simp add: createDrop_purge_def)
  next
    case (Some q)
    with inv obtain info where l: "fmlookup (allDrops s) q = Some info" "DropId info = q"
      unfolding registry_inv_def by blast
    with p Some have "cleanupDrop env s q = Inr s1"
      by (auto simp: createDrop_purge_def split: if_splits)
    from cleanupDrop_Inr[OF this l] show ?thesis by auto
  qed
  from createDrop_install_Inr[OF i] have
    "itxns s' = (itxns s1 @
                   (if creationFeeAmount s1 + 80600 < pay_amount pay
                    then [Payment (pay_sender pay) (pay_amount pay - (creationFeeAmount s1 + 80600)) ''excess mbr refund'']
                    else [])) @
                   [Payment (maintainerAddress s1) (creationFeeAmount s1 div 2) ''TokenDrop fee'',
                    Payment (feeSink env) (creationFeeAmount s1 div 2) ''TokenDrop fee'']"
    by simp
  with g show "\<exists>tx. itxns s' = tx @
                 [Payment (maintainerAddress s) (creationFeeAmount s div 2) ''TokenDrop fee'',
                  Payment (feeSink env) (creationFeeAmount s div 2) ''TokenDrop fee'']"
    by (metis (no_types))
qed

theorem changeFees_creation_fee_witness:
  "changeFees ex_envO ex_s1 4000000 100000 = Inr (ex_s1\<lparr>creationFeeAmount := 4000000, perClaimFeeAmount := 100000\<rparr>)
   \<and> (2000000::nat) < 4000000 \<and> even (4000000::nat)
   \<and> txn_sender ex_envO = app_creator ex_envO
   \<and> changeFees ex_envO ex_s1 2000000 100000 = Inl (AssertionFailed ''fee must be at least 2 algo'')
   \<and> changeFees ex_envO ex_s1 4000001 100000 = Inl (AssertionFailed ''fee must be even amount'')
   \<and> reachable ex_s0 \<and> even (creationFeeAmount ex_s0)
   \<and> createDrop ex_env ex_s0 ex_pay ex_atxn ex_cfg = Inr (1, ex_s1)
   \<and> (\<exists>tx. itxns ex_s1 = tx @ [Payment ''maint'' 5000000 ''TokenDrop fee'',
                               Payment ''sink'' 5000000 ''TokenDrop fee''])"
proof -
  have o: "txn_sender ex_envO = app_creator ex_envO" by (simp add: ex_envO_def ex_env_def)
  have a: "changeFees ex_envO ex_s1 4000000 100000
           = Inr (ex_s1\<lparr>creationFeeAmount := 4000000, perClaimFeeAmount := 100000\<rparr>)"
    by (simp add: changeFees_def ex_envO_def ex_env_def getPerClaimerMbrCost_value overflows_def)
  from changeFees_creation_fee[of ex_envO ex_s1 4000000 100000] a
  have a': "(2000000::nat) < 4000000 \<and> even (4000000::nat)" by blast
  from changeFees_creation_fee[of ex_envO ex_s1 2000000 100000] o
  have b: "changeFees ex_envO ex_s1 2000000 100000 = Inl (AssertionFailed ''fee must be at least 2 algo'')"
    by simp
  from changeFees_creation_fee[of ex_envO ex_s1 4000001 100000] o
  have c: "changeFees ex_envO ex_s1 4000001 100000 = Inl (AssertionFailed ''fee must be even amount'')"
    by simp
  from changeFees_creation_fee[of ex_env ex_s0 0 0] ex_reachable0 ex_createDrop
  have d: "even (creationFeeAmount ex_s0)
        \<and> (\<exists>tx. itxns ex_s1 = tx @
                 [Payment (maintainerAddress ex_s0) (creationFeeAmount ex_s0 div 2) ''TokenDrop fee'',
                  Payment (feeSink ex_env) (creationFeeAmount ex_s0 div 2) ''TokenDrop fee''])"
    by blast
  from a a' o b c d ex_reachable0 ex_createDrop show ?thesis
    by (simp add: ex_s0_def createApplication_def ex_env_def)
qed

end
